theory Spec2Isabelle
  imports Complex_Main
begin

section \<open>Data model\<close>

text \<open>
  The notifier is a Go program of three files: \<^verbatim>\<open>main.go\<close> (entry point, top-level
  dispatcher and the chat sink), \<^verbatim>\<open>pagerduty.go\<close> (paging sink) and \<^verbatim>\<open>sns.go\<close>
  (the queue-record and the infrastructure-event classifiers). Every struct is a record
  with the fields of the source, in the source's order. A field name used by several
  structs is written qualified (\<open>SlackField.Value\<close>), as Go does.

  Go strings are byte sequences, and so are Isabelle's (\<open>string = char list\<close>, 8-bit
  characters). \<^verbatim>\<open>json.RawMessage\<close> and \<^verbatim>\<open>[]byte\<close> are strings as well.
\<close>

subsection \<open>Values of type \<^verbatim>\<open>interface{}\<close>\<close>

text \<open>
  What \<^verbatim>\<open>encoding/json\<close> stores in an \<^verbatim>\<open>interface{}\<close>: nil, bool, float64, string,
  a slice or a map. Comparing such a value with a string constant (\<^verbatim>\<open>v == "aws:sns"\<close>) is
  true exactly when it holds a string with those bytes; any other dynamic type compares
  unequal without panicking.
\<close>

datatype go_value =
    VNil
  | VBool bool
  | VFloat64 real
  | VString string
  | VSlice "go_value list"
  | VMap "(string \<times> go_value) list"

subsection \<open>Inbound payloads (\<^verbatim>\<open>main.go\<close>, \<^verbatim>\<open>sns.go\<close>)\<close>

text \<open>
  \<^verbatim>\<open>Records []map[string]interface{}\<close>: \<open>None\<close> is the nil slice. Reading a key of a
  nil map gives nil as reading a missing key does, so an element is a partial map.
\<close>

record GenericEvent =
  Records :: "(string \<rightharpoonup> go_value) list option"
  Id :: string
  DetailType :: string
  Source :: string
  Test :: string

record SMSMessageAttribute =
  Type :: string
  Value :: string

record SNSMessage =
  SignatureVersion :: string
  Timestamp :: string
  Signature :: string
  SigningCertUrl :: string
  MessageId :: string
  Message :: string
  MessageAttributes :: "string \<rightharpoonup> SMSMessageAttribute"
  Type :: string
  UnsubscribeUrl :: string
  TopicArn :: string
  Subject :: string

record SNSRecord =
  EventVersion :: string
  EventSubscriptionArn :: string
  EventSource :: string
  Sns :: SNSMessage

record SNSRecordList =
  Records :: "SNSRecord list"

record CloudwatchAlarmTriggerDimension =
  Name :: string
  Value :: string

record CloudwatchAlarmTrigger =
  MetricName :: string
  Namespace :: string
  Statistic :: string
  Unit :: string
  Dimensions :: "CloudwatchAlarmTriggerDimension list"
  Period :: int
  EvaluationPeriods :: int
  ComparisonOperator :: string
  Threshold :: real

record CloudwatchAlarm =
  AlarmName :: string
  AlarmDescription :: string
  AWSAccountId :: string
  NewStateValue :: string
  NewStateReason :: string
  StateChangeTime :: string
  Region :: string
  OldStateValue :: string
  Trigger :: CloudwatchAlarmTrigger

record CloudwatchEvent =
  Id :: string
  DetailType :: string
  Source :: string
  Account :: string
  Time :: string
  Region :: string
  Resources :: "string list"
  Detail :: string

record DetailEC2StateChange =
  InstanceId :: string
  State :: string

record DetailAutoScalingLifecycleEvent =
  LifecycleActionToken :: string
  AutoScalingGroupName :: string
  LifecycleHookName :: string
  EC2InstanceId :: string
  LifecycleTransition :: string
  NotificationMetadata :: string

record DetailAutoScalingEC2EventDetails =
  AvailabilityZone :: string
  SubnetID :: string

record DetailAutoScalingEC2Event =
  StatusCode :: string
  AutoScalingGroupName :: string
  ActivityId :: string
  Details :: DetailAutoScalingEC2EventDetails
  RequestId :: string
  EndTime :: string
  EC2InstanceId :: string
  StartTime :: string
  Cause :: string

subsection \<open>Chat sink types (\<^verbatim>\<open>main.go\<close>)\<close>

definition ColorInfo :: string where "ColorInfo = ''#00BFFF''"
definition ColorSuccess :: string where "ColorSuccess = ''#00FF00''"
definition ColorWarn :: string where "ColorWarn = ''#FFD700''"
definition ColorError :: string where "ColorError = ''#DC143C''"

record SlackField =
  Title :: string
  Value :: string
  Short :: bool

record SlackAttachment =
  Fallback :: string
  Color :: string
  Fields :: "SlackField list"

record SlackMessage =
  Attachments :: "SlackAttachment list"

record SlackNotifier =
  webhook :: string

subsection \<open>Paging sink types (\<^verbatim>\<open>pagerduty.go\<close>)\<close>

record PagerdutyIncidentDetails =
  Fields :: "string \<rightharpoonup> string"

record PagerdutyIncident =
  Description :: string
  IncidentKey :: string
  Details :: PagerdutyIncidentDetails

record PagerdutyIncidentRequest =
  ServiceKey :: string
  EventType :: string
  Description :: string
  IncidentKey :: string
  Client :: string
  Details :: PagerdutyIncidentDetails

record PagerdutyNotifier =
  serviceKey :: string

section \<open>Effects\<close>

text \<open>
  A Go function of result type \<^verbatim>\<open>error\<close> returns nil, returns an error, or panics.
  An error is its text (\<^verbatim>\<open>err.Error()\<close>); a panic unwinds through every caller, none of
  which recovers.
\<close>

datatype result = Ok | Err string | Panic string

text \<open>
  The observable history of one invocation, oldest event first: the lines given to
  \<^verbatim>\<open>log.Print\<close>, the calls of the two sink senders with their arguments, and the HTTP
  requests issued (URL, content type, body).
\<close>

datatype event =
    EvLog string
  | EvSendMessage SlackMessage
  | EvTriggerIncident PagerdutyIncident
  | EvHttpPost string string string

type_synonym world = "event list"

text \<open>
  \<^verbatim>\<open>http.Post\<close> returns a response pointer and an error. On a transport failure the
  pointer is nil and the error is set; on success the pointer is set and the error is nil;
  both are set only when a redirect policy fails.
\<close>

datatype http_response = Response nat

text \<open>
  The standard library and the network are parameters of the model: the decoders of
  \<^verbatim>\<open>json.Unmarshal\<close> at each target type and the encoders of \<^verbatim>\<open>json.Marshal\<close>
  (\<open>Inl\<close> carries the error text), \<^verbatim>\<open>http.Post\<close> (whose answer may depend on everything
  that happened before), and \<^verbatim>\<open>os.LookupEnv\<close>.
\<close>

record runtime =
  json_Unmarshal_GenericEvent :: "string \<Rightarrow> string + GenericEvent"
  json_Unmarshal_SNSRecordList :: "string \<Rightarrow> string + SNSRecordList"
  json_Unmarshal_CloudwatchAlarm :: "string \<Rightarrow> string + CloudwatchAlarm"
  json_Unmarshal_CloudwatchEvent :: "string \<Rightarrow> string + CloudwatchEvent"
  json_Unmarshal_DetailEC2StateChange :: "string \<Rightarrow> string + DetailEC2StateChange"
  json_Marshal_SlackMessage :: "SlackMessage \<Rightarrow> string + string"
  json_Marshal_PagerdutyIncidentRequest :: "PagerdutyIncidentRequest \<Rightarrow> string + string"
  http_Post :: "world \<Rightarrow> string \<Rightarrow> string \<Rightarrow> string \<Rightarrow> http_response option \<times> string option"
  os_LookupEnv :: "string \<Rightarrow> string option"

definition nil_dereference :: string where
  "nil_dereference = ''runtime error: invalid memory address or nil pointer dereference''"

section \<open>Helpers\<close>

text \<open>\<^verbatim>\<open>contains\<close> of \<^verbatim>\<open>main.go\<close>: linear search with early return.\<close>

fun contains :: "string list \<Rightarrow> string \<Rightarrow> bool" where
  "contains [] el = False"
| "contains (v # s) el = (if v = el then True else contains s el)"

text \<open>\<^verbatim>\<open>strings.Contains\<close>: does \<open>substr\<close> occur in \<open>s\<close> as a contiguous run of bytes.\<close>

fun strings_HasPrefix :: "string \<Rightarrow> string \<Rightarrow> bool" where
  "strings_HasPrefix s [] = True"
| "strings_HasPrefix [] (c # p) = False"
| "strings_HasPrefix (x # s) (c # p) = (x = c \<and> strings_HasPrefix s p)"

fun strings_Contains :: "string \<Rightarrow> string \<Rightarrow> bool" where
  "strings_Contains [] substr = (substr = [])"
| "strings_Contains (x # s) substr =
     (strings_HasPrefix (x # s) substr \<or> strings_Contains s substr)"

section \<open>The sinks\<close>

text \<open>
  \<^verbatim>\<open>SlackNotifier.sendMessage\<close>. The response body is closed before the error of
  \<^verbatim>\<open>http.Post\<close> is looked at: with a nil response that is a nil dereference.
\<close>

definition sendMessage :: "runtime \<Rightarrow> SlackNotifier \<Rightarrow> SlackMessage \<Rightarrow> world \<Rightarrow> result \<times> world" where
  "sendMessage rt n msg w0 =
    (let w1 = w0 @ [EvSendMessage msg, EvLog ''Sending Slack message...''] in
     case json_Marshal_SlackMessage rt msg of
       Inl e \<Rightarrow> (Err (''Failed to marshal Slack message: '' @ e), w1)
     | Inr payload \<Rightarrow>
         (let (res, err) = http_Post rt w1 (webhook n) ''application/json'' payload;
              w2 = w1 @ [EvHttpPost (webhook n) ''application/json'' payload] in
          case res of
            None \<Rightarrow> (Panic nil_dereference, w2)
          | Some r \<Rightarrow>
              (case err of
                 Some e \<Rightarrow> (Err (''Failed to send Slack message - got error: '' @ e), w2)
               | None \<Rightarrow> (Ok, w2 @ [EvLog ''Slack message sent'']))))"

definition pagerduty_url :: string where
  "pagerduty_url = ''https://events.pagerduty.com/generic/2010-04-15/create_event.json''"

text \<open>\<^verbatim>\<open>PagerdutyNotifier.triggerIncident\<close>, with the same order of close and check.\<close>

definition triggerIncident :: "runtime \<Rightarrow> PagerdutyNotifier \<Rightarrow> PagerdutyIncident \<Rightarrow> world \<Rightarrow> result \<times> world" where
  "triggerIncident rt p incident w0 =
    (let w1 = w0 @ [EvTriggerIncident incident, EvLog ''Triggering Pagerduty incident...''];
         req = \<lparr> ServiceKey = serviceKey p,
                 EventType = ''trigger'',
                 PagerdutyIncidentRequest.Description = PagerdutyIncident.Description incident,
                 PagerdutyIncidentRequest.IncidentKey = PagerdutyIncident.IncidentKey incident,
                 Client = ''AWS Event Processor'',
                 PagerdutyIncidentRequest.Details = PagerdutyIncident.Details incident \<rparr> in
     case json_Marshal_PagerdutyIncidentRequest rt req of
       Inl e \<Rightarrow> (Err (''failed to marshal Pagerduty request: '' @ e), w1)
     | Inr payload \<Rightarrow>
         (let (res, err) = http_Post rt w1 pagerduty_url ''application/json'' payload;
              w2 = w1 @ [EvHttpPost pagerduty_url ''application/json'' payload] in
          case res of
            None \<Rightarrow> (Panic nil_dereference, w2)
          | Some r \<Rightarrow>
              (case err of
                 Some e \<Rightarrow> (Err (''failed to trigger Pagerduty Incident - got error: '' @ e), w2)
               | None \<Rightarrow> (Ok, w2 @ [EvLog ''Pagerduty incident triggered'']))))"

section \<open>Queue-record classifier (\<^verbatim>\<open>sns.go\<close>)\<close>

text \<open>
  The two plain-message branches of \<^verbatim>\<open>processSNSRecord\<close>, each written out as the
  source has it: the branch for subjects containing \<^verbatim>\<open>RDS Notification Message\<close> and
  the final \<^verbatim>\<open>else\<close>.
\<close>

definition rdsNotificationBranch :: "runtime \<Rightarrow> SlackNotifier \<Rightarrow> SNSRecord \<Rightarrow> world \<Rightarrow> result \<times> world" where
  "rdsNotificationBranch rt slackNotifier record w =
    (let slackMessage = \<lparr> Attachments = [
           \<lparr> Fallback = Message (Sns record),
             Color = ColorInfo,
             SlackAttachment.Fields = [
               \<lparr> Title = Subject (Sns record),
                 SlackField.Value = Message (Sns record),
                 Short = False \<rparr> ] \<rparr> ] \<rparr> in
     case sendMessage rt slackNotifier slackMessage w of
       (Err e, w') \<Rightarrow> (Err e, w')
     | (Panic e, w') \<Rightarrow> (Panic e, w')
     | (Ok, w') \<Rightarrow> (Ok, w'))"

definition plainMessageBranch :: "runtime \<Rightarrow> SlackNotifier \<Rightarrow> SNSRecord \<Rightarrow> world \<Rightarrow> result \<times> world" where
  "plainMessageBranch rt slackNotifier record w =
    (let slackMessage = \<lparr> Attachments = [
           \<lparr> Fallback = Message (Sns record),
             Color = ColorInfo,
             SlackAttachment.Fields = [
               \<lparr> Title = Subject (Sns record),
                 SlackField.Value = Message (Sns record),
                 Short = False \<rparr> ] \<rparr> ] \<rparr> in
     case sendMessage rt slackNotifier slackMessage w of
       (Err e, w') \<Rightarrow> (Err e, w')
     | (Panic e, w') \<Rightarrow> (Panic e, w')
     | (Ok, w') \<Rightarrow> (Ok, w'))"

text \<open>
  The alarm branch. The two \<^verbatim>\<open>range\<close> loops over the trigger dimensions are folds: the
  first appends one field per dimension, the second extends the incident key and stores
  into the detail map (a later dimension of the same name overwrites an earlier one).
\<close>

definition alarmBranch :: "runtime \<Rightarrow> SlackNotifier \<Rightarrow> PagerdutyNotifier \<Rightarrow> SNSRecord \<Rightarrow> world \<Rightarrow> result \<times> world" where
  "alarmBranch rt slackNotifier pagerdutyNotifier record w =
    (let isFailing = strings_Contains (Subject (Sns record)) ''ALARM:'' in
     case json_Unmarshal_CloudwatchAlarm rt (Message (Sns record)) of
       Inl e \<Rightarrow> (Err (''could not unmarshal Cloudwatch Alarm payload: '' @ e), w)
     | Inr alarm \<Rightarrow>
        (let fields0 = [ \<lparr> Title = Subject (Sns record),
                            SlackField.Value = NewStateReason alarm,
                            Short = False \<rparr> ];
             fields1 = foldl (\<lambda>fields d. fields @ [
                           \<lparr> Title = Name d,
                             SlackField.Value = CloudwatchAlarmTriggerDimension.Value d,
                             Short = True \<rparr> ])
                         fields0 (Dimensions (Trigger alarm));
             color = (if isFailing then ColorError else ColorSuccess);
             fields2 = fields1 @ [ \<lparr> Title = ''Namespace'',
                                     SlackField.Value = Namespace (Trigger alarm),
                                     Short = True \<rparr> ];
             fields3 = fields2 @ [ \<lparr> Title = ''MetricName'',
                                     SlackField.Value = MetricName (Trigger alarm),
                                     Short = True \<rparr> ];
             slackMessage = \<lparr> Attachments = [
                 \<lparr> Fallback = NewStateReason alarm,
                   Color = color,
                   SlackAttachment.Fields = fields3 \<rparr> ] \<rparr> in
         case sendMessage rt slackNotifier slackMessage w of
           (Err e, w') \<Rightarrow> (Err e, w')
         | (Panic e, w') \<Rightarrow> (Panic e, w')
         | (Ok, w') \<Rightarrow>
            (if isFailing then
               (let (incidentKey, detailFields) =
                      foldl (\<lambda>(incidentKey, detailFields) dv.
                               (incidentKey @ CloudwatchAlarmTriggerDimension.Value dv,
                                detailFields(Name dv \<mapsto> CloudwatchAlarmTriggerDimension.Value dv)))
                            (''incident'', Map.empty) (Dimensions (Trigger alarm));
                    incident = \<lparr> PagerdutyIncident.Description =
                                   Subject (Sns record) @ ''-'' @ NewStateReason alarm,
                                 PagerdutyIncident.IncidentKey = incidentKey,
                                 PagerdutyIncident.Details =
                                   \<lparr> PagerdutyIncidentDetails.Fields = detailFields \<rparr> \<rparr> in
                case triggerIncident rt pagerdutyNotifier incident w' of
                  (Err e, w'') \<Rightarrow> (Err e, w'')
                | (Panic e, w'') \<Rightarrow> (Panic e, w'')
                | (Ok, w'') \<Rightarrow> (Ok, w''))
             else (Ok, w'))))"

definition processSNSRecord :: "runtime \<Rightarrow> SlackNotifier \<Rightarrow> PagerdutyNotifier \<Rightarrow> SNSRecord \<Rightarrow> world \<Rightarrow> result \<times> world" where
  "processSNSRecord rt slackNotifier pagerdutyNotifier record w =
    (if strings_Contains (Subject (Sns record)) ''ALARM:''
        \<or> strings_Contains (Subject (Sns record)) ''OK:''
     then alarmBranch rt slackNotifier pagerdutyNotifier record w
     else if strings_Contains (Subject (Sns record)) ''RDS Notification Message''
     then rdsNotificationBranch rt slackNotifier record w
     else plainMessageBranch rt slackNotifier record w)"

text \<open>The loop of \<^verbatim>\<open>processSNSRecords\<close> over the decoded records.\<close>

fun processSNSRecords_loop :: "runtime \<Rightarrow> SlackNotifier \<Rightarrow> PagerdutyNotifier \<Rightarrow> SNSRecord list \<Rightarrow> world \<Rightarrow> result \<times> world" where
  "processSNSRecords_loop rt slackNotifier pagerdutyNotifier [] w = (Ok, w)"
| "processSNSRecords_loop rt slackNotifier pagerdutyNotifier (record # rest) w =
    (case processSNSRecord rt slackNotifier pagerdutyNotifier record w of
       (Err e, w') \<Rightarrow> (Err (''could not process SNS record: '' @ e), w')
     | (Panic e, w') \<Rightarrow> (Panic e, w')
     | (Ok, w') \<Rightarrow> processSNSRecords_loop rt slackNotifier pagerdutyNotifier rest w')"

definition processSNSRecords :: "runtime \<Rightarrow> SlackNotifier \<Rightarrow> PagerdutyNotifier \<Rightarrow> string \<Rightarrow> world \<Rightarrow> result \<times> world" where
  "processSNSRecords rt slackNotifier pagerdutyNotifier raw w =
    (case json_Unmarshal_SNSRecordList rt raw of
       Inl e \<Rightarrow> (Err (''could not unmarshal SNS record list: '' @ e), w)
     | Inr recordList \<Rightarrow>
         processSNSRecords_loop rt slackNotifier pagerdutyNotifier
           (SNSRecordList.Records recordList) w)"

section \<open>Infrastructure-event classifier (\<^verbatim>\<open>sns.go\<close>)\<close>

definition processEC2StateChangeEvent :: "runtime \<Rightarrow> SlackNotifier \<Rightarrow> PagerdutyNotifier \<Rightarrow> CloudwatchEvent \<Rightarrow> world \<Rightarrow> result \<times> world" where
  "processEC2StateChangeEvent rt slackNotifier pagerdutyNotifier event w =
    (case json_Unmarshal_DetailEC2StateChange rt (Detail event) of
       Inl e \<Rightarrow> (Err (''unsupported EC2 Cloudwatch Event Detail: '' @ e), w)
     | Inr eventDetail \<Rightarrow>
        (let color = (if contains [''shutting-down'', ''terminated'', ''stopping'', ''stopped'']
                            (State eventDetail)
                      then ColorWarn else ColorInfo);
             title = ''EC2 Instance State-change'';
             slackMessage = \<lparr> Attachments = [
                 \<lparr> Fallback = title,
                   Color = color,
                   SlackAttachment.Fields = [
                     \<lparr> Title = ''CloudWatch Event'', SlackField.Value = title, Short = False \<rparr>,
                     \<lparr> Title = ''instance-id'', SlackField.Value = InstanceId eventDetail,
                       Short = True \<rparr>,
                     \<lparr> Title = ''state'', SlackField.Value = State eventDetail,
                       Short = True \<rparr> ] \<rparr> ] \<rparr> in
         case sendMessage rt slackNotifier slackMessage w of
           (Err e, w') \<Rightarrow> (Err e, w')
         | (Panic e, w') \<Rightarrow> (Panic e, w')
         | (Ok, w') \<Rightarrow> (Ok, w')))"

text \<open>
  In \<^verbatim>\<open>processAutoscalingEvent\<close> both branches declare \<^verbatim>\<open>var eventDetail\<close> and read its
  fields; nothing is ever stored into it, so it keeps Go's zero value, every string empty.
\<close>

definition zero_DetailAutoScalingLifecycleEvent :: DetailAutoScalingLifecycleEvent where
  "zero_DetailAutoScalingLifecycleEvent =
     \<lparr> LifecycleActionToken = [],
       DetailAutoScalingLifecycleEvent.AutoScalingGroupName = [],
       LifecycleHookName = [],
       DetailAutoScalingLifecycleEvent.EC2InstanceId = [],
       LifecycleTransition = [],
       NotificationMetadata = [] \<rparr>"

definition zero_DetailAutoScalingEC2Event :: DetailAutoScalingEC2Event where
  "zero_DetailAutoScalingEC2Event =
     \<lparr> StatusCode = [],
       DetailAutoScalingEC2Event.AutoScalingGroupName = [],
       ActivityId = [],
       DetailAutoScalingEC2Event.Details = \<lparr> AvailabilityZone = [], SubnetID = [] \<rparr>,
       RequestId = [],
       EndTime = [],
       DetailAutoScalingEC2Event.EC2InstanceId = [],
       StartTime = [],
       Cause = [] \<rparr>"

definition processAutoscalingEvent :: "runtime \<Rightarrow> SlackNotifier \<Rightarrow> PagerdutyNotifier \<Rightarrow> CloudwatchEvent \<Rightarrow> world \<Rightarrow> result \<times> world" where
  "processAutoscalingEvent rt slackNotifier pagerdutyNotifier event w =
    (if contains [''EC2 Instance-launch Lifecycle Action'',
                  ''EC2 Instance-terminate Lifecycle Action'']
                 (CloudwatchEvent.DetailType event)
     then
       (let eventDetail = zero_DetailAutoScalingLifecycleEvent;
            title = ''Autoscaling - Lifecycle Action'';
            slackMessage = \<lparr> Attachments = [
                \<lparr> Fallback = title,
                  Color = ColorInfo,
                  SlackAttachment.Fields = [
                    \<lparr> Title = ''CloudWatch Event'', SlackField.Value = title, Short = False \<rparr>,
                    \<lparr> Title = ''AutoScalingGroupName'',
                      SlackField.Value =
                        DetailAutoScalingLifecycleEvent.AutoScalingGroupName eventDetail,
                      Short = True \<rparr>,
                    \<lparr> Title = ''EC2InstanceId'',
                      SlackField.Value =
                        DetailAutoScalingLifecycleEvent.EC2InstanceId eventDetail,
                      Short = True \<rparr>,
                    \<lparr> Title = ''LifecycleTransition'',
                      SlackField.Value = LifecycleTransition eventDetail,
                      Short = True \<rparr> ] \<rparr> ] \<rparr> in
        case sendMessage rt slackNotifier slackMessage w of
          (Err e, w') \<Rightarrow> (Err e, w')
        | (Panic e, w') \<Rightarrow> (Panic e, w')
        | (Ok, w') \<Rightarrow> (Ok, w'))
     else
       (let eventDetail = zero_DetailAutoScalingEC2Event;
            color = (if contains [''EC2 Instance Launch Unsuccessful'',
                                  ''EC2 Instance Terminate Unsuccessful'']
                                 (CloudwatchEvent.DetailType event)
                     then ColorWarn else ColorInfo);
            title = ''Autoscaling - '' @ CloudwatchEvent.DetailType event;
            slackMessage = \<lparr> Attachments = [
                \<lparr> Fallback = title,
                  Color = color,
                  SlackAttachment.Fields = [
                    \<lparr> Title = ''CloudWatch Event'', SlackField.Value = title, Short = False \<rparr>,
                    \<lparr> Title = ''EC2InstanceId'',
                      SlackField.Value = DetailAutoScalingEC2Event.EC2InstanceId eventDetail,
                      Short = True \<rparr>,
                    \<lparr> Title = ''StatusCode'',
                      SlackField.Value = StatusCode eventDetail,
                      Short = True \<rparr>,
                    \<lparr> Title = ''Availability Zone'',
                      SlackField.Value =
                        AvailabilityZone (DetailAutoScalingEC2Event.Details eventDetail),
                      Short = True \<rparr>,
                    \<lparr> Title = ''Cause'',
                      SlackField.Value = Cause eventDetail,
                      Short = True \<rparr> ] \<rparr> ] \<rparr> in
        case sendMessage rt slackNotifier slackMessage w of
          (Err e, w') \<Rightarrow> (Err e, w')
        | (Panic e, w') \<Rightarrow> (Panic e, w')
        | (Ok, w') \<Rightarrow> (Ok, w')))"

definition processCloudwatchEvent :: "runtime \<Rightarrow> SlackNotifier \<Rightarrow> PagerdutyNotifier \<Rightarrow> string \<Rightarrow> world \<Rightarrow> result \<times> world" where
  "processCloudwatchEvent rt slackNotifier pagerdutyNotifier raw w =
    (case json_Unmarshal_CloudwatchEvent rt raw of
       Inl e \<Rightarrow> (Err (''unsupported Cloudwatch Event payload: '' @ e), w)
     | Inr event \<Rightarrow>
        (if CloudwatchEvent.Source event = ''aws.ec2'' then
           (if CloudwatchEvent.DetailType event = ''EC2 Instance State-change Notification''
            then
              (case processEC2StateChangeEvent rt slackNotifier pagerdutyNotifier event w of
                 (Err e, w') \<Rightarrow> (Err (''failed to process EC2 Event: '' @ e), w')
               | (Panic e, w') \<Rightarrow> (Panic e, w')
               | (Ok, w') \<Rightarrow> (Ok, w'))
            else (Ok, w))
         else if CloudwatchEvent.Source event = ''aws.events'' then (Ok, w)
         else if CloudwatchEvent.Source event = ''aws.autoscaling'' then
           (case processAutoscalingEvent rt slackNotifier pagerdutyNotifier event w of
              (Err e, w') \<Rightarrow> (Err (''failed to process Autoscaling Event: '' @ e), w')
            | (Panic e, w') \<Rightarrow> (Panic e, w')
            | (Ok, w') \<Rightarrow> (Ok, w'))
         else
           (let title = CloudwatchEvent.Source event;
                slackMessage = \<lparr> Attachments = [
                    \<lparr> Fallback = title,
                      Color = ColorInfo,
                      SlackAttachment.Fields = [
                        \<lparr> Title = ''CloudWatch Event'', SlackField.Value = title,
                          Short = False \<rparr>,
                        \<lparr> Title = ''Event Detail JSON'', SlackField.Value = Detail event,
                          Short = False \<rparr> ] \<rparr> ] \<rparr> in
            case sendMessage rt slackNotifier slackMessage w of
              (Err e, w') \<Rightarrow> (Err e, w')
            | (Panic e, w') \<Rightarrow> (Panic e, w')
            | (Ok, w') \<Rightarrow> (Ok, w'))))"

section \<open>Top-level dispatcher and entry point (\<^verbatim>\<open>main.go\<close>)\<close>

text \<open>
  \<^verbatim>\<open>data.Records[0]["EventSource"] == "aws:sns"\<close> is evaluated only when the slice is
  neither nil nor empty, so the index never fails.
\<close>

definition processMessage :: "runtime \<Rightarrow> SlackNotifier \<Rightarrow> PagerdutyNotifier \<Rightarrow> string \<Rightarrow> world \<Rightarrow> result \<times> world" where
  "processMessage rt slackNotifier pagerdutyNotifier raw w =
    (case json_Unmarshal_GenericEvent rt raw of
       Inl e \<Rightarrow> (Err (''unsupported payload: '' @ e), w)
     | Inr data \<Rightarrow>
        (case GenericEvent.Records data of
           Some (first # others) \<Rightarrow>
             (if first ''EventSource'' = Some (VString ''aws:sns'') then
                (case processSNSRecords rt slackNotifier pagerdutyNotifier raw w of
                   (Err e, w') \<Rightarrow> (Err e, w')
                 | (Panic e, w') \<Rightarrow> (Panic e, w')
                 | (Ok, w') \<Rightarrow> (Ok, w'))
              else (Ok, w @ [EvLog ''No SNS records to process'']))
         | _ \<Rightarrow>
             (case processCloudwatchEvent rt slackNotifier pagerdutyNotifier raw w of
                (Err e, w') \<Rightarrow> (Err e, w')
              | (Panic e, w') \<Rightarrow> (Panic e, w')
              | (Ok, w') \<Rightarrow> (Ok, w'))))"

definition HandleRequest :: "runtime \<Rightarrow> string \<Rightarrow> world \<Rightarrow> result \<times> world" where
  "HandleRequest rt rawData w0 =
    (let w1 = w0 @ [EvLog ''Receiving new Event(s)''] in
     case os_LookupEnv rt ''slack_webhook'' of
       None \<Rightarrow> (Err ''could not read slack_webhook_enc from environment'', w1)
     | Some slackWebhook \<Rightarrow>
        (let slackNotifier = \<lparr> webhook = slackWebhook \<rparr> in
         case os_LookupEnv rt ''pagerduty_key'' of
           None \<Rightarrow> (Err ''could not read pagerduty_key from environment'', w1)
         | Some pagerdutyKey \<Rightarrow>
            (let pagerdutyNotifier = \<lparr> serviceKey = pagerdutyKey \<rparr> in
             processMessage rt slackNotifier pagerdutyNotifier rawData w1)))"

section \<open>Observations on a history\<close>

text \<open>The chat messages and the incidents handed to the sinks, in order.\<close>

fun slack_calls :: "world \<Rightarrow> SlackMessage list" where
  "slack_calls [] = []"
| "slack_calls (EvSendMessage m # w) = m # slack_calls w"
| "slack_calls (_ # w) = slack_calls w"

fun pagerduty_calls :: "world \<Rightarrow> PagerdutyIncident list" where
  "pagerduty_calls [] = []"
| "pagerduty_calls (EvTriggerIncident i # w) = i # pagerduty_calls w"
| "pagerduty_calls (_ # w) = pagerduty_calls w"

section \<open>The alarm message and incident, as the specification words them\<close>

text \<open>
  The chat message of an alarm record: a wide field pairing the subject with the
  state-change reason, one narrow field per trigger dimension in order, a narrow namespace
  field and a narrow metric-name field; red when the subject contains \<^verbatim>\<open>ALARM:\<close>, green
  otherwise. The theorems below compare what the code builds with these.
\<close>

definition alarm_fields_spec :: "SNSRecord \<Rightarrow> CloudwatchAlarm \<Rightarrow> SlackField list" where
  "alarm_fields_spec record alarm =
     \<lparr> Title = Subject (Sns record), SlackField.Value = NewStateReason alarm, Short = False \<rparr>
     # map (\<lambda>d. \<lparr> Title = Name d, SlackField.Value = CloudwatchAlarmTriggerDimension.Value d,
                   Short = True \<rparr>) (Dimensions (Trigger alarm))
     @ [ \<lparr> Title = ''Namespace'', SlackField.Value = Namespace (Trigger alarm), Short = True \<rparr>,
         \<lparr> Title = ''MetricName'', SlackField.Value = MetricName (Trigger alarm), Short = True \<rparr> ]"

definition alarm_message_spec :: "SNSRecord \<Rightarrow> CloudwatchAlarm \<Rightarrow> SlackMessage" where
  "alarm_message_spec record alarm =
     \<lparr> Attachments = [
         \<lparr> Fallback = NewStateReason alarm,
           Color = (if strings_Contains (Subject (Sns record)) ''ALARM:''
                    then ColorError else ColorSuccess),
           SlackAttachment.Fields = alarm_fields_spec record alarm \<rparr> ] \<rparr>"

text \<open>
  The incident of a failing alarm: the key is \<^verbatim>\<open>incident\<close> followed by every dimension
  value in order; the detail map holds, for each dimension name, the value of the last
  dimension carrying that name.
\<close>

definition alarm_incident_spec :: "SNSRecord \<Rightarrow> CloudwatchAlarm \<Rightarrow> PagerdutyIncident" where
  "alarm_incident_spec record alarm =
     \<lparr> PagerdutyIncident.Description = Subject (Sns record) @ ''-'' @ NewStateReason alarm,
       PagerdutyIncident.IncidentKey =
         ''incident'' @ concat (map CloudwatchAlarmTriggerDimension.Value
                                    (Dimensions (Trigger alarm))),
       PagerdutyIncident.Details = \<lparr> PagerdutyIncidentDetails.Fields =
         map_of (rev (map (\<lambda>d. (Name d, CloudwatchAlarmTriggerDimension.Value d))
                          (Dimensions (Trigger alarm)))) \<rparr> \<rparr>"

section \<open>Sample payloads and a test double of the library\<close>

text \<open>
  Concrete inputs for the examples: notifiers, records, events, and a \<open>runtime\<close> whose
  decoders are tables of the few documents used here, each mapped to what Go's decoder
  gives for it (absent keys leave the zero value). Its encoders return a placeholder
  body; no statement below reads a request body.
\<close>

definition sample_slack :: SlackNotifier where
  "sample_slack = \<lparr> webhook = ''https://hooks.slack.com/services/T0/B0/X0'' \<rparr>"

definition sample_pagerduty :: PagerdutyNotifier where
  "sample_pagerduty = \<lparr> serviceKey = ''0123456789abcdef'' \<rparr>"

definition sns_record :: "string \<Rightarrow> string \<Rightarrow> SNSRecord" where
  "sns_record subject message =
     \<lparr> EventVersion = [], EventSubscriptionArn = [], EventSource = ''aws:sns'',
       Sns = \<lparr> SignatureVersion = [], Timestamp = [], Signature = [], SigningCertUrl = [],
               MessageId = [], Message = message, MessageAttributes = Map.empty,
               SNSMessage.Type = [], UnsubscribeUrl = [], TopicArn = [],
               Subject = subject \<rparr> \<rparr>"

definition alarm_of :: "CloudwatchAlarmTriggerDimension list \<Rightarrow> CloudwatchAlarm" where
  "alarm_of dims =
     \<lparr> AlarmName = [], AlarmDescription = [], AWSAccountId = [], NewStateValue = [],
       NewStateReason = ''Threshold Crossed'', StateChangeTime = [],
       CloudwatchAlarm.Region = [], OldStateValue = [],
       Trigger = \<lparr> MetricName = ''CPUUtilization'', Namespace = ''AWS/RDS'', Statistic = [],
                   Unit = [], Dimensions = dims, Period = 0, EvaluationPeriods = 0,
                   ComparisonOperator = [], Threshold = 0 \<rparr> \<rparr>"

definition alarm_json :: string where
  \<open>alarm_json = ''{"NewStateReason":"Threshold Crossed","Trigger":{"MetricName":"CPUUtilization","Namespace":"AWS/RDS","Dimensions":[{"name":"az","value":"us-east-1b"},{"name":"db","value":"primary"}]}}''\<close>

definition sample_alarm :: CloudwatchAlarm where
  "sample_alarm = alarm_of [ \<lparr> Name = ''az'', CloudwatchAlarmTriggerDimension.Value = ''us-east-1b'' \<rparr>,
                             \<lparr> Name = ''db'', CloudwatchAlarmTriggerDimension.Value = ''primary'' \<rparr> ]"

definition twice_az_json :: string where
  \<open>twice_az_json = ''{"NewStateReason":"Threshold Crossed","Trigger":{"MetricName":"CPUUtilization","Namespace":"AWS/RDS","Dimensions":[{"name":"az","value":"us-east-1a"},{"name":"az","value":"us-east-1b"}]}}''\<close>

definition twice_az_alarm :: CloudwatchAlarm where
  "twice_az_alarm = alarm_of [ \<lparr> Name = ''az'', CloudwatchAlarmTriggerDimension.Value = ''us-east-1a'' \<rparr>,
                               \<lparr> Name = ''az'', CloudwatchAlarmTriggerDimension.Value = ''us-east-1b'' \<rparr> ]"

definition no_dimensions_json :: string where
  \<open>no_dimensions_json = ''{"NewStateReason":"Threshold Crossed","Trigger":{"MetricName":"CPUUtilization","Namespace":"AWS/RDS","Dimensions":[]}}''\<close>

definition no_dimensions_record :: SNSRecord where
  "no_dimensions_record = sns_record ''ALARM: cpu-high in US East'' no_dimensions_json"

definition failing_record :: SNSRecord where
  "failing_record = sns_record ''ALARM: cpu-high in US East'' alarm_json"

definition recovered_record :: SNSRecord where
  "recovered_record = sns_record ''OK: cpu-high in US East'' alarm_json"

definition twice_az_record :: SNSRecord where
  "twice_az_record = sns_record ''ALARM: cpu-high in US East'' twice_az_json"

definition hello_record :: SNSRecord where
  "hello_record = sns_record ''TestInvoke'' ''Hello from SNS!''"

definition garbled_record :: SNSRecord where
  "garbled_record = sns_record ''ALARM: disk-full in US East'' ''Hello from SNS!''"

definition rds_record :: SNSRecord where
  "rds_record = sns_record ''RDS Notification Message'' ''Finished DB Instance backup''"

definition batch_raw :: string where
  \<open>batch_raw = ''{"Records":[{"EventSource":"aws:sns","Sns":{"Subject":"TestInvoke","Message":"Hello from SNS!"}},{"EventSource":"aws:sns","Sns":{"Subject":"ALARM: disk-full in US East","Message":"Hello from SNS!"}},{"EventSource":"aws:sns","Sns":{"Subject":"RDS Notification Message","Message":"Finished DB Instance backup"}}]}''\<close>

definition generic_record :: "string \<Rightarrow> string \<Rightarrow> (string \<rightharpoonup> go_value)" where
  "generic_record subject message =
     [''EventSource'' \<mapsto> VString ''aws:sns'',
      ''Sns'' \<mapsto> VMap [(''Subject'', VString subject), (''Message'', VString message)]]"

definition s3_raw :: string where
  \<open>s3_raw = ''{"Records":[{"eventSource":"aws:s3","eventName":"ObjectCreated:Put"}]}''\<close>

definition no_records_raw :: string where
  \<open>no_records_raw = ''{"Records":[]}''\<close>

definition cloudwatch_event :: "string \<Rightarrow> string \<Rightarrow> string \<Rightarrow> CloudwatchEvent" where
  "cloudwatch_event source detailType detail =
     \<lparr> CloudwatchEvent.Id = [], CloudwatchEvent.DetailType = detailType,
       CloudwatchEvent.Source = source, Account = [], Time = [],
       CloudwatchEvent.Region = [], Resources = [], Detail = detail \<rparr>"

definition generic_event :: "string \<Rightarrow> string \<Rightarrow> GenericEvent" where
  "generic_event source detailType =
     \<lparr> GenericEvent.Records = None, GenericEvent.Id = [],
       GenericEvent.DetailType = detailType, GenericEvent.Source = source, Test = [] \<rparr>"

definition generic_batch :: "(string \<rightharpoonup> go_value) list \<Rightarrow> GenericEvent" where
  "generic_batch records =
     \<lparr> GenericEvent.Records = Some records, GenericEvent.Id = [],
       GenericEvent.DetailType = [], GenericEvent.Source = [], Test = [] \<rparr>"

definition ec2_pending_detail :: string where
  \<open>ec2_pending_detail = ''{"instance-id":"i-abcd1111","state":"pending"}''\<close>

definition ec2_terminated_detail :: string where
  \<open>ec2_terminated_detail = ''{"instance-id":"i-abcd1111","state":"terminated"}''\<close>

definition ec2_pending_raw :: string where
  \<open>ec2_pending_raw = ''{"detail-type":"EC2 Instance State-change Notification","source":"aws.ec2","detail":{"instance-id":"i-abcd1111","state":"pending"}}''\<close>

definition ec2_spot_raw :: string where
  \<open>ec2_spot_raw = ''{"detail-type":"EC2 Spot Instance Interruption Warning","source":"aws.ec2","detail":{"instance-id":"i-abcd1111","instance-action":"terminate"}}''\<close>

definition ec2_spot_detail :: string where
  \<open>ec2_spot_detail = ''{"instance-id":"i-abcd1111","instance-action":"terminate"}''\<close>

definition lifecycle_detail :: string where
  \<open>lifecycle_detail = ''{"LifecycleActionToken":"c613620e","AutoScalingGroupName":"my-asg","LifecycleHookName":"my-lifecycle-hook","EC2InstanceId":"i-1234567890abcdef0","LifecycleTransition":"autoscaling:EC2_INSTANCE_LAUNCHING","NotificationMetadata":"additional-info"}''\<close>

definition lifecycle_event :: CloudwatchEvent where
  "lifecycle_event =
     cloudwatch_event ''aws.autoscaling'' ''EC2 Instance-launch Lifecycle Action'' lifecycle_detail"

definition launch_detail :: string where
  \<open>launch_detail = ''{"StatusCode":"InProgress","AutoScalingGroupName":"ASGLaunchSuccess","Details":{"Availability Zone":"us-east-1b","Subnet ID":"subnet-95bfcebe"},"EC2InstanceId":"i-b188560f","Cause":"a user request created an Auto Scaling group"}''\<close>

definition launch_event :: CloudwatchEvent where
  "launch_event =
     cloudwatch_event ''aws.autoscaling'' ''EC2 Instance Launch Successful'' launch_detail"

definition decode_table :: "(string \<times> 'a) list \<Rightarrow> string \<Rightarrow> string + 'a" where
  "decode_table table doc =
     (case map_of table doc of
        Some v \<Rightarrow> Inr v
      | None \<Rightarrow> Inl ''invalid character looking for beginning of value'')"

definition test_runtime :: runtime where
  "test_runtime =
     \<lparr> json_Unmarshal_GenericEvent = decode_table
         [ (batch_raw, generic_batch
              [ generic_record ''TestInvoke'' ''Hello from SNS!'',
                generic_record ''ALARM: disk-full in US East'' ''Hello from SNS!'',
                generic_record ''RDS Notification Message'' ''Finished DB Instance backup'' ]),
           (s3_raw, generic_batch
              [ [''eventSource'' \<mapsto> VString ''aws:s3'',
                 ''eventName'' \<mapsto> VString ''ObjectCreated:Put''] ]),
           (no_records_raw, generic_batch []),
           (ec2_pending_raw,
              generic_event ''aws.ec2'' ''EC2 Instance State-change Notification''),
           (ec2_spot_raw,
              generic_event ''aws.ec2'' ''EC2 Spot Instance Interruption Warning'') ],
       json_Unmarshal_SNSRecordList = decode_table
         [ (batch_raw,
              \<lparr> SNSRecordList.Records = [hello_record, garbled_record, rds_record] \<rparr>) ],
       json_Unmarshal_CloudwatchAlarm = decode_table
         [ (alarm_json, sample_alarm), (twice_az_json, twice_az_alarm),
           (no_dimensions_json, alarm_of []) ],
       json_Unmarshal_CloudwatchEvent = decode_table
         [ (no_records_raw, cloudwatch_event [] [] []),
           (ec2_pending_raw,
              cloudwatch_event ''aws.ec2'' ''EC2 Instance State-change Notification''
                ec2_pending_detail),
           (ec2_spot_raw,
              cloudwatch_event ''aws.ec2'' ''EC2 Spot Instance Interruption Warning''
                ec2_spot_detail) ],
       json_Unmarshal_DetailEC2StateChange = decode_table
         [ (ec2_pending_detail, \<lparr> InstanceId = ''i-abcd1111'', State = ''pending'' \<rparr>),
           (ec2_terminated_detail, \<lparr> InstanceId = ''i-abcd1111'', State = ''terminated'' \<rparr>) ],
       json_Marshal_SlackMessage = (\<lambda>msg. Inr ''{}''),
       json_Marshal_PagerdutyIncidentRequest = (\<lambda>req. Inr ''{}''),
       http_Post = (\<lambda>w url contentType body. (Some (Response 200), None)),
       os_LookupEnv = [ ''slack_webhook'' \<mapsto> webhook sample_slack,
                        ''pagerduty_key'' \<mapsto> serviceKey sample_pagerduty ] \<rparr>"

text \<open>The chat webhook answers with an endless chain of redirects; everything else works.\<close>

definition redirect_loop_runtime :: runtime where
  "redirect_loop_runtime =
     test_runtime \<lparr> http_Post := (\<lambda>w url contentType body.
       if url = webhook sample_slack
       then (Some (Response 302), Some ''stopped after 10 redirects'')
       else (Some (Response 200), None)) \<rparr>"

text \<open>No network: every request fails in the transport, with no response at all.\<close>

definition network_down_runtime :: runtime where
  "network_down_runtime =
     test_runtime \<lparr> http_Post := (\<lambda>w url contentType body.
       (None, Some ''dial tcp: lookup failed: no such host'')) \<rparr>"

section \<open>Basic facts\<close>

lemma strings_HasPrefix_iff: "strings_HasPrefix s p \<longleftrightarrow> (\<exists>t. s = p @ t)"
  by (induction s p rule: strings_HasPrefix.induct) auto

lemma strings_Contains_iff: "strings_Contains s substr \<longleftrightarrow> (\<exists>u t. s = u @ substr @ t)"
proof (induction s)
  case Nil
  then show ?case by auto
next
  case (Cons x s)
  show ?case
  proof
    assume "strings_Contains (x # s) substr"
    then consider "strings_HasPrefix (x # s) substr" | "strings_Contains s substr"
      by auto
    then show "\<exists>u t. x # s = u @ substr @ t"
    proof cases
      case 1
      then obtain t where "x # s = substr @ t"
        by (auto simp: strings_HasPrefix_iff)
      then have "x # s = [] @ substr @ t" by simp
      then show ?thesis by blast
    next
      case 2
      then obtain u t where "s = u @ substr @ t"
        using Cons.IH by blast
      then have "x # s = (x # u) @ substr @ t" by simp
      then show ?thesis by blast
    qed
  next
    assume "\<exists>u t. x # s = u @ substr @ t"
    then obtain u t where ut: "x # s = u @ substr @ t" by blast
    show "strings_Contains (x # s) substr"
    proof (cases u)
      case Nil
      with ut have "strings_HasPrefix (x # s) substr"
        by (auto simp: strings_HasPrefix_iff)
      then show ?thesis by simp
    next
      case (Cons y u')
      with ut have "s = u' @ substr @ t" by simp
      then have "strings_Contains s substr"
        using Cons.IH by blast
      then show ?thesis by simp
    qed
  qed
qed

lemma contains_iff: "contains s el \<longleftrightarrow> el \<in> set s"
  by (induction s) auto

lemma slack_calls_append: "slack_calls (u @ v) = slack_calls u @ slack_calls v"
  by (induction u rule: slack_calls.induct) auto

lemma pagerduty_calls_append: "pagerduty_calls (u @ v) = pagerduty_calls u @ pagerduty_calls v"
  by (induction u rule: pagerduty_calls.induct) auto

lemma return_err_id:
  "(case r of (Err e, w') \<Rightarrow> (Err e, w') | (Panic e, w') \<Rightarrow> (Panic e, w') | (Ok, w') \<Rightarrow> (Ok, w')) = r"
  by (cases r) (auto split: result.splits)

subsection \<open>What one call of a sink adds to the history\<close>

lemma sendMessage_slack_calls:
  "slack_calls (snd (sendMessage rt n msg w)) = slack_calls w @ [msg]"
  by (simp add: sendMessage_def Let_def slack_calls_append
           split: sum.splits prod.splits option.splits)

lemma sendMessage_pagerduty_calls:
  "pagerduty_calls (snd (sendMessage rt n msg w)) = pagerduty_calls w"
  by (simp add: sendMessage_def Let_def pagerduty_calls_append
           split: sum.splits prod.splits option.splits)

lemma triggerIncident_slack_calls:
  "slack_calls (snd (triggerIncident rt p incident w)) = slack_calls w"
  by (simp add: triggerIncident_def Let_def slack_calls_append
           split: sum.splits prod.splits option.splits)

lemma triggerIncident_pagerduty_calls:
  "pagerduty_calls (snd (triggerIncident rt p incident w)) = pagerduty_calls w @ [incident]"
  by (simp add: triggerIncident_def Let_def pagerduty_calls_append
           split: sum.splits prod.splits option.splits)

subsection \<open>The two loops over the dimensions\<close>

lemma fields_loop:
  "foldl (\<lambda>fields d. fields @ [f d]) acc ds = acc @ map f ds"
  by (induction ds arbitrary: acc) auto

lemma incident_loop:
  "foldl (\<lambda>(incidentKey, detailFields) dv. (incidentKey @ v dv, detailFields(k dv \<mapsto> v dv)))
         (key, m) ds
   = (key @ concat (map v ds), m ++ map_of (rev (map (\<lambda>d. (k d, v d)) ds)))"
proof (induction ds arbitrary: key m)
  case Nil
  then show ?case by simp
next
  case (Cons d ds)
  have step: "m(k d \<mapsto> v d) ++ map_of (rev (map (\<lambda>d. (k d, v d)) ds))
        = m ++ map_of (rev (map (\<lambda>d. (k d, v d)) ds) @ [(k d, v d)])"
    by (simp add: map_add_def fun_eq_iff split: option.splits)
  have "foldl (\<lambda>(incidentKey, detailFields) dv.
                 (incidentKey @ v dv, detailFields(k dv \<mapsto> v dv))) (key, m) (d # ds)
        = foldl (\<lambda>(incidentKey, detailFields) dv.
                 (incidentKey @ v dv, detailFields(k dv \<mapsto> v dv)))
            (key @ v d, m(k d \<mapsto> v d)) ds"
    by simp
  also have "\<dots> = ((key @ v d) @ concat (map v ds),
                   m(k d \<mapsto> v d) ++ map_of (rev (map (\<lambda>d. (k d, v d)) ds)))"
    by (rule Cons.IH)
  also have "\<dots> = (key @ concat (map v (d # ds)),
                   m ++ map_of (rev (map (\<lambda>d. (k d, v d)) (d # ds))))"
    using step by simp
  finally show ?case .
qed

subsection \<open>The alarm branch after a successful decode\<close>

lemma alarmBranch_decoded:
  assumes "json_Unmarshal_CloudwatchAlarm rt (Message (Sns record)) = Inr alarm"
  shows "alarmBranch rt sn pn record w =
    (case sendMessage rt sn (alarm_message_spec record alarm) w of
       (Ok, w') \<Rightarrow>
         if strings_Contains (Subject (Sns record)) ''ALARM:''
         then triggerIncident rt pn (alarm_incident_spec record alarm) w'
         else (Ok, w')
     | (Err e, w') \<Rightarrow> (Err e, w')
     | (Panic e, w') \<Rightarrow> (Panic e, w'))"
  using assms
  by (simp add: alarmBranch_def Let_def fields_loop incident_loop return_err_id
        alarm_message_spec_def alarm_fields_spec_def alarm_incident_spec_def
      split: prod.splits result.splits)

subsection \<open>The alarm branch, sink by sink\<close>

lemma alarmBranch_slack_calls:
  assumes "json_Unmarshal_CloudwatchAlarm rt (Message (Sns record)) = Inr alarm"
  shows "slack_calls (snd (alarmBranch rt sn pn record w))
         = slack_calls w @ [alarm_message_spec record alarm]"
proof -
  obtain r w' where sent: "sendMessage rt sn (alarm_message_spec record alarm) w = (r, w')"
    by (cases "sendMessage rt sn (alarm_message_spec record alarm) w") auto
  have w': "slack_calls w' = slack_calls w @ [alarm_message_spec record alarm]"
    using sendMessage_slack_calls [of rt sn "alarm_message_spec record alarm" w] sent by simp
  show ?thesis
    using sent w' triggerIncident_slack_calls [of rt pn "alarm_incident_spec record alarm" w']
    by (cases r) (simp_all add: alarmBranch_decoded [OF assms])
qed

lemma alarmBranch_pagerduty_calls:
  assumes "json_Unmarshal_CloudwatchAlarm rt (Message (Sns record)) = Inr alarm"
  shows "pagerduty_calls (snd (alarmBranch rt sn pn record w))
         = (if fst (sendMessage rt sn (alarm_message_spec record alarm) w) = Ok
               \<and> strings_Contains (Subject (Sns record)) ''ALARM:''
            then pagerduty_calls w @ [alarm_incident_spec record alarm]
            else pagerduty_calls w)"
proof -
  obtain r w' where sent: "sendMessage rt sn (alarm_message_spec record alarm) w = (r, w')"
    by (cases "sendMessage rt sn (alarm_message_spec record alarm) w") auto
  have w': "pagerduty_calls w' = pagerduty_calls w"
    using sendMessage_pagerduty_calls [of rt sn "alarm_message_spec record alarm" w] sent
    by simp
  show ?thesis
    using sent w'
      triggerIncident_pagerduty_calls [of rt pn "alarm_incident_spec record alarm" w']
    by (cases r) (simp_all add: alarmBranch_decoded [OF assms])
qed

lemma alarmBranch_undecoded:
  assumes "json_Unmarshal_CloudwatchAlarm rt (Message (Sns record)) = Inl e"
  shows "alarmBranch rt sn pn record w
         = (Err (''could not unmarshal Cloudwatch Alarm payload: '' @ e), w)"
  using assms by (simp add: alarmBranch_def)

subsection \<open>The plain branches\<close>

lemma rdsNotificationBranch_sendMessage:
  "rdsNotificationBranch rt sn record w =
     sendMessage rt sn
       \<lparr> Attachments = [
           \<lparr> Fallback = Message (Sns record),
             Color = ColorInfo,
             SlackAttachment.Fields = [
               \<lparr> Title = Subject (Sns record), SlackField.Value = Message (Sns record),
                 Short = False \<rparr> ] \<rparr> ] \<rparr> w"
  by (simp add: rdsNotificationBranch_def return_err_id)

lemma plainMessageBranch_sendMessage:
  "plainMessageBranch rt sn record w =
     sendMessage rt sn
       \<lparr> Attachments = [
           \<lparr> Fallback = Message (Sns record),
             Color = ColorInfo,
             SlackAttachment.Fields = [
               \<lparr> Title = Subject (Sns record), SlackField.Value = Message (Sns record),
                 Short = False \<rparr> ] \<rparr> ] \<rparr> w"
  by (simp add: plainMessageBranch_def return_err_id)

lemma processSNSRecord_not_alarm:
  assumes "\<not> strings_Contains (Subject (Sns record)) ''ALARM:''"
    and "\<not> strings_Contains (Subject (Sns record)) ''OK:''"
  shows "processSNSRecord rt sn pn record w =
     sendMessage rt sn
       \<lparr> Attachments = [
           \<lparr> Fallback = Message (Sns record),
             Color = ColorInfo,
             SlackAttachment.Fields = [
               \<lparr> Title = Subject (Sns record), SlackField.Value = Message (Sns record),
                 Short = False \<rparr> ] \<rparr> ] \<rparr> w"
  using assms
  by (simp add: processSNSRecord_def rdsNotificationBranch_sendMessage
        plainMessageBranch_sendMessage)

subsection \<open>The record loop\<close>

lemma processSNSRecords_loop_append:
  "processSNSRecords_loop rt sn pn (before @ later) w =
     (case processSNSRecords_loop rt sn pn before w of
        (Ok, w') \<Rightarrow> processSNSRecords_loop rt sn pn later w'
      | (Err e, w') \<Rightarrow> (Err e, w')
      | (Panic e, w') \<Rightarrow> (Panic e, w'))"
proof (induction before arbitrary: w)
  case Nil
  then show ?case by simp
next
  case (Cons r before)
  obtain res w' where step: "processSNSRecord rt sn pn r w = (res, w')"
    by (cases "processSNSRecord rt sn pn r w") auto
  show ?case
    using Cons.IH [of w'] by (cases res) (simp_all add: step)
qed

lemma processSNSRecord_Ok_slack_calls:
  assumes "processSNSRecord rt sn pn record w = (Ok, w')"
  shows "\<exists>m. slack_calls w' = slack_calls w @ [m]"
proof (cases "strings_Contains (Subject (Sns record)) ''ALARM:''
              \<or> strings_Contains (Subject (Sns record)) ''OK:''")
  case True
  then have branch: "processSNSRecord rt sn pn record w = alarmBranch rt sn pn record w"
    by (simp add: processSNSRecord_def)
  show ?thesis
  proof (cases "json_Unmarshal_CloudwatchAlarm rt (Message (Sns record))")
    case (Inl e)
    then show ?thesis using assms by (simp add: branch alarmBranch_undecoded)
  next
    case (Inr alarm)
    have "slack_calls (snd (alarmBranch rt sn pn record w))
          = slack_calls w @ [alarm_message_spec record alarm]"
      by (rule alarmBranch_slack_calls [OF Inr])
    then show ?thesis using assms branch by simp
  qed
next
  case False
  then have "processSNSRecord rt sn pn record w =
     sendMessage rt sn
       \<lparr> Attachments = [
           \<lparr> Fallback = Message (Sns record),
             Color = ColorInfo,
             SlackAttachment.Fields = [
               \<lparr> Title = Subject (Sns record), SlackField.Value = Message (Sns record),
                 Short = False \<rparr> ] \<rparr> ] \<rparr> w"
    by (simp add: processSNSRecord_not_alarm)
  then have "slack_calls (snd (processSNSRecord rt sn pn record w)) = slack_calls w @
       [ \<lparr> Attachments = [
           \<lparr> Fallback = Message (Sns record),
             Color = ColorInfo,
             SlackAttachment.Fields = [
               \<lparr> Title = Subject (Sns record), SlackField.Value = Message (Sns record),
                 Short = False \<rparr> ] \<rparr> ] \<rparr> ]"
    by (simp add: sendMessage_slack_calls)
  then show ?thesis using assms by simp
qed

subsection \<open>The infrastructure-event classifier never pages\<close>

lemma processEC2StateChangeEvent_pagerduty_calls:
  "pagerduty_calls (snd (processEC2StateChangeEvent rt sn pn event w)) = pagerduty_calls w"
  by (simp add: processEC2StateChangeEvent_def Let_def return_err_id
        sendMessage_pagerduty_calls split: sum.splits)

lemma processAutoscalingEvent_pagerduty_calls:
  "pagerduty_calls (snd (processAutoscalingEvent rt sn pn event w)) = pagerduty_calls w"
  by (simp add: processAutoscalingEvent_def Let_def return_err_id
        sendMessage_pagerduty_calls del: contains.simps)

lemma snd_wrap_err:
  "snd (case r of (Err e, w') \<Rightarrow> (Err (f e), w') | (Panic e, w') \<Rightarrow> (Panic e, w')
               | (Ok, w') \<Rightarrow> (Ok, w')) = snd r"
  by (cases r) (auto split: result.splits)

lemma processCloudwatchEvent_pagerduty_calls:
  "pagerduty_calls (snd (processCloudwatchEvent rt sn pn raw w)) = pagerduty_calls w"
  by (simp add: processCloudwatchEvent_def Let_def return_err_id snd_wrap_err
        processEC2StateChangeEvent_pagerduty_calls processAutoscalingEvent_pagerduty_calls
        sendMessage_pagerduty_calls split: sum.splits)

lemma processSNSRecord_pages_only_failing:
  assumes "pagerduty_calls (snd (processSNSRecord rt sn pn record w)) \<noteq> pagerduty_calls w"
  shows "strings_Contains (Subject (Sns record)) ''ALARM:''"
proof (rule ccontr)
  assume quiet: "\<not> strings_Contains (Subject (Sns record)) ''ALARM:''"
  show False
  proof (cases "strings_Contains (Subject (Sns record)) ''OK:''")
    case True
    then have branch: "processSNSRecord rt sn pn record w = alarmBranch rt sn pn record w"
      by (simp add: processSNSRecord_def)
    show False
    proof (cases "json_Unmarshal_CloudwatchAlarm rt (Message (Sns record))")
      case (Inl e)
      then show False using assms by (simp add: branch alarmBranch_undecoded)
    next
      case (Inr alarm)
      then show False using assms quiet by (simp add: branch alarmBranch_pagerduty_calls)
    qed
  next
    case False
    then show False
      using assms quiet by (simp add: processSNSRecord_not_alarm sendMessage_pagerduty_calls)
  qed
qed

subsection \<open>The senders, outcome by outcome of the request\<close>

lemma sendMessage_outcomes:
  assumes "json_Marshal_SlackMessage rt msg = Inr payload"
  shows "http_Post rt (w @ [EvSendMessage msg, EvLog ''Sending Slack message...''])
             (webhook n) ''application/json'' payload = (None, err)
         \<Longrightarrow> fst (sendMessage rt n msg w) = Panic nil_dereference"
    and "http_Post rt (w @ [EvSendMessage msg, EvLog ''Sending Slack message...''])
             (webhook n) ''application/json'' payload = (Some r, Some e)
         \<Longrightarrow> fst (sendMessage rt n msg w)
             = Err (''Failed to send Slack message - got error: '' @ e)"
    and "http_Post rt (w @ [EvSendMessage msg, EvLog ''Sending Slack message...''])
             (webhook n) ''application/json'' payload = (Some r, None)
         \<Longrightarrow> fst (sendMessage rt n msg w) = Ok"
  using assms by (simp_all add: sendMessage_def Let_def)

lemma network_down_sendMessage:
  "sendMessage network_down_runtime n msg w
   = (Panic nil_dereference,
      w @ [ EvSendMessage msg, EvLog ''Sending Slack message...'',
            EvHttpPost (webhook n) ''application/json'' ''{}'' ])"
  by (simp add: sendMessage_def network_down_runtime_def test_runtime_def Let_def)

lemma network_down_triggerIncident:
  "triggerIncident network_down_runtime p incident w
   = (Panic nil_dereference,
      w @ [ EvTriggerIncident incident, EvLog ''Triggering Pagerduty incident...'',
            EvHttpPost pagerduty_url ''application/json'' ''{}'' ])"
  by (simp add: triggerIncident_def network_down_runtime_def test_runtime_def Let_def)

lemma network_down_tables:
  "os_LookupEnv network_down_runtime ''slack_webhook'' = Some (webhook sample_slack)"
  "os_LookupEnv network_down_runtime ''pagerduty_key'' = Some (serviceKey sample_pagerduty)"
  "json_Unmarshal_GenericEvent network_down_runtime ec2_pending_raw
     = Inr (generic_event ''aws.ec2'' ''EC2 Instance State-change Notification'')"
  "json_Unmarshal_CloudwatchEvent network_down_runtime ec2_pending_raw
     = Inr (cloudwatch_event ''aws.ec2'' ''EC2 Instance State-change Notification''
              ec2_pending_detail)"
  "json_Unmarshal_DetailEC2StateChange network_down_runtime ec2_pending_detail
     = Inr \<lparr> InstanceId = ''i-abcd1111'', State = ''pending'' \<rparr>"
  by (simp_all add: network_down_runtime_def test_runtime_def decode_table_def
        batch_raw_def s3_raw_def no_records_raw_def ec2_pending_raw_def)

lemma cloudwatch_event_sel:
  "CloudwatchEvent.Source (cloudwatch_event source detailType detail) = source"
  "CloudwatchEvent.DetailType (cloudwatch_event source detailType detail) = detailType"
  "Detail (cloudwatch_event source detailType detail) = detail"
  by (simp_all add: cloudwatch_event_def)

lemma fst_wrap_err_Panic:
  assumes "fst r = Panic x"
  shows "fst (case r of (Err e, w') \<Rightarrow> (Err (f e), w') | (Panic e, w') \<Rightarrow> (Panic e, w')
                  | (Ok, w') \<Rightarrow> (Ok, w')) = Panic x"
  using assms by (cases r) (auto split: result.splits)

subsection \<open>The test double on the sample documents\<close>

lemma table_simps:
  "json_Unmarshal_CloudwatchAlarm test_runtime alarm_json = Inr sample_alarm"
  "json_Unmarshal_CloudwatchAlarm test_runtime twice_az_json = Inr twice_az_alarm"
  "json_Unmarshal_CloudwatchAlarm test_runtime no_dimensions_json = Inr (alarm_of [])"
  "json_Unmarshal_CloudwatchAlarm test_runtime ''Hello from SNS!''
     = Inl ''invalid character looking for beginning of value''"
  by (simp_all add: test_runtime_def decode_table_def alarm_json_def twice_az_json_def
        no_dimensions_json_def)

subsection \<open>The test doubles as sinks\<close>

lemma test_sendMessage_Ok:
  "fst (sendMessage test_runtime n msg w) = Ok"
  by (simp add: sendMessage_def test_runtime_def Let_def)

lemma redirect_loop_sendMessage:
  "fst (sendMessage redirect_loop_runtime sample_slack msg w)
   = Err ''Failed to send Slack message - got error: stopped after 10 redirects''"
  by (simp add: sendMessage_def redirect_loop_runtime_def test_runtime_def Let_def)

lemma redirect_loop_decodes:
  "json_Unmarshal_CloudwatchAlarm redirect_loop_runtime = json_Unmarshal_CloudwatchAlarm test_runtime"
  by (simp add: redirect_loop_runtime_def)

section \<open>The incident of a failing alarm\<close>

text \<open>
  Claim C1, as amended. For every record whose subject contains \<^verbatim>\<open>ALARM:\<close>, whose embedded
  message decodes and whose chat message was sent without error, \<^verbatim>\<open>processSNSRecord\<close>
  hands the paging sink exactly one incident: its description is the subject, a hyphen and
  the state-change reason; its key is \<^verbatim>\<open>incident\<close> followed by every dimension value in
  list order (the bare \<^verbatim>\<open>incident\<close> for an empty list); its detail fields have the
  dimension names as keys, each name mapped to the value of the last dimension carrying it,
  which is the dimension's own value when the names are pairwise distinct. For every
  record whose subject contains \<^verbatim>\<open>OK:\<close> but not \<^verbatim>\<open>ALARM:\<close> no incident is sent.
\<close>

theorem failing_alarm_incident:
  "(strings_Contains (Subject (Sns record)) ''ALARM:''
    \<and> json_Unmarshal_CloudwatchAlarm rt (Message (Sns record)) = Inr alarm
    \<and> fst (sendMessage rt sn (alarm_message_spec record alarm) w) = Ok
    \<longrightarrow> (\<exists>incident.
          pagerduty_calls (snd (processSNSRecord rt sn pn record w))
            = pagerduty_calls w @ [incident]
        \<and> PagerdutyIncident.Description incident
            = Subject (Sns record) @ ''-'' @ NewStateReason alarm
        \<and> PagerdutyIncident.IncidentKey incident
            = ''incident'' @ concat (map CloudwatchAlarmTriggerDimension.Value
                                       (Dimensions (Trigger alarm)))
        \<and> (Dimensions (Trigger alarm) = []
             \<longrightarrow> PagerdutyIncident.IncidentKey incident = ''incident'')
        \<and> PagerdutyIncidentDetails.Fields (PagerdutyIncident.Details incident)
            = map_of (rev (map (\<lambda>d. (Name d, CloudwatchAlarmTriggerDimension.Value d))
                               (Dimensions (Trigger alarm))))
        \<and> dom (PagerdutyIncidentDetails.Fields (PagerdutyIncident.Details incident))
            = Name ` set (Dimensions (Trigger alarm))
        \<and> (distinct (map Name (Dimensions (Trigger alarm)))
             \<longrightarrow> (\<forall>d \<in> set (Dimensions (Trigger alarm)).
                    PagerdutyIncidentDetails.Fields (PagerdutyIncident.Details incident) (Name d)
                    = Some (CloudwatchAlarmTriggerDimension.Value d)))))
   \<and> (strings_Contains (Subject (Sns record)) ''OK:''
      \<and> \<not> strings_Contains (Subject (Sns record)) ''ALARM:''
      \<longrightarrow> pagerduty_calls (snd (processSNSRecord rt sn pn record w)) = pagerduty_calls w)"
proof (intro conjI impI)
  assume h: "strings_Contains (Subject (Sns record)) ''ALARM:''
    \<and> json_Unmarshal_CloudwatchAlarm rt (Message (Sns record)) = Inr alarm
    \<and> fst (sendMessage rt sn (alarm_message_spec record alarm) w) = Ok"
  let ?dims = "Dimensions (Trigger alarm)"
  let ?pairs = "map (\<lambda>d. (Name d, CloudwatchAlarmTriggerDimension.Value d)) ?dims"
  let ?i = "alarm_incident_spec record alarm"
  have branch: "processSNSRecord rt sn pn record w = alarmBranch rt sn pn record w"
    using h by (simp add: processSNSRecord_def)
  have calls: "pagerduty_calls (snd (processSNSRecord rt sn pn record w))
               = pagerduty_calls w @ [?i]"
    using h by (simp add: branch alarmBranch_pagerduty_calls)
  have dom: "dom (map_of (rev ?pairs)) = Name ` set ?dims"
    by (simp add: dom_map_of_conv_image_fst image_image)
  have each: "map_of (rev ?pairs) (Name d) = Some (CloudwatchAlarmTriggerDimension.Value d)"
    if "distinct (map Name ?dims)" and "d \<in> set ?dims" for d
  proof -
    have "distinct (map fst (rev ?pairs))"
      using that(1) by (simp add: rev_map [symmetric] comp_def)
    moreover have "(Name d, CloudwatchAlarmTriggerDimension.Value d) \<in> set (rev ?pairs)"
      using that(2) by auto
    ultimately show ?thesis by (rule map_of_is_SomeI)
  qed
  show "\<exists>incident.
          pagerduty_calls (snd (processSNSRecord rt sn pn record w))
            = pagerduty_calls w @ [incident]
        \<and> PagerdutyIncident.Description incident
            = Subject (Sns record) @ ''-'' @ NewStateReason alarm
        \<and> PagerdutyIncident.IncidentKey incident
            = ''incident'' @ concat (map CloudwatchAlarmTriggerDimension.Value ?dims)
        \<and> (?dims = [] \<longrightarrow> PagerdutyIncident.IncidentKey incident = ''incident'')
        \<and> PagerdutyIncidentDetails.Fields (PagerdutyIncident.Details incident)
            = map_of (rev ?pairs)
        \<and> dom (PagerdutyIncidentDetails.Fields (PagerdutyIncident.Details incident))
            = Name ` set ?dims
        \<and> (distinct (map Name ?dims)
             \<longrightarrow> (\<forall>d \<in> set ?dims.
                    PagerdutyIncidentDetails.Fields (PagerdutyIncident.Details incident) (Name d)
                    = Some (CloudwatchAlarmTriggerDimension.Value d)))"
  proof (intro exI [of _ ?i] conjI)
    show "pagerduty_calls (snd (processSNSRecord rt sn pn record w)) = pagerduty_calls w @ [?i]"
      by (rule calls)
  qed (use dom each in \<open>simp_all add: alarm_incident_spec_def\<close>)
next
  assume h: "strings_Contains (Subject (Sns record)) ''OK:''
      \<and> \<not> strings_Contains (Subject (Sns record)) ''ALARM:''"
  have branch: "processSNSRecord rt sn pn record w = alarmBranch rt sn pn record w"
    using h by (simp add: processSNSRecord_def)
  show "pagerduty_calls (snd (processSNSRecord rt sn pn record w)) = pagerduty_calls w"
  proof (cases "json_Unmarshal_CloudwatchAlarm rt (Message (Sns record))")
    case (Inl e)
    then show ?thesis by (simp add: branch alarmBranch_undecoded)
  next
    case (Inr alarm)
    then show ?thesis using h by (simp add: branch alarmBranch_pagerduty_calls)
  qed
qed

theorem failing_alarm_incident_witness:
  "strings_Contains (Subject (Sns failing_record)) ''ALARM:''
   \<and> json_Unmarshal_CloudwatchAlarm test_runtime (Message (Sns failing_record)) = Inr sample_alarm
   \<and> fst (sendMessage test_runtime sample_slack
             (alarm_message_spec failing_record sample_alarm) []) = Ok
   \<and> distinct (map Name (Dimensions (Trigger sample_alarm)))
   \<and> pagerduty_calls (snd (processSNSRecord test_runtime sample_slack sample_pagerduty
                              failing_record []))
      = [ \<lparr> PagerdutyIncident.Description = ''ALARM: cpu-high in US East-Threshold Crossed'',
            PagerdutyIncident.IncidentKey = ''incidentus-east-1bprimary'',
            PagerdutyIncident.Details = \<lparr> PagerdutyIncidentDetails.Fields =
              [''az'' \<mapsto> ''us-east-1b'', ''db'' \<mapsto> ''primary''] \<rparr> \<rparr> ]
   \<and> Dimensions (Trigger (alarm_of [])) = []
   \<and> map PagerdutyIncident.IncidentKey
        (pagerduty_calls (snd (processSNSRecord test_runtime sample_slack sample_pagerduty
                                 no_dimensions_record [])))
      = [''incident'']
   \<and> strings_Contains (Subject (Sns recovered_record)) ''OK:''
   \<and> \<not> strings_Contains (Subject (Sns recovered_record)) ''ALARM:''
   \<and> pagerduty_calls (snd (processSNSRecord test_runtime sample_slack sample_pagerduty
                              recovered_record [])) = []"
proof -
  have a: "strings_Contains (Subject (Sns failing_record)) ''ALARM:''"
    "strings_Contains (Subject (Sns no_dimensions_record)) ''ALARM:''"
    "strings_Contains (Subject (Sns recovered_record)) ''OK:''"
    "\<not> strings_Contains (Subject (Sns recovered_record)) ''ALARM:''"
    by (simp_all add: failing_record_def no_dimensions_record_def recovered_record_def
          sns_record_def)
  have b: "json_Unmarshal_CloudwatchAlarm test_runtime (Message (Sns failing_record))
             = Inr sample_alarm"
    "json_Unmarshal_CloudwatchAlarm test_runtime (Message (Sns no_dimensions_record))
             = Inr (alarm_of [])"
    by (simp_all add: failing_record_def no_dimensions_record_def sns_record_def table_simps)
  have c: "distinct (map Name (Dimensions (Trigger sample_alarm)))"
    "Dimensions (Trigger (alarm_of [])) = []"
    by (simp_all add: sample_alarm_def alarm_of_def)
  from failing_alarm_incident [of failing_record test_runtime sample_alarm sample_slack "[]"
      sample_pagerduty] a b test_sendMessage_Ok
  obtain i where i:
    "pagerduty_calls (snd (processSNSRecord test_runtime sample_slack sample_pagerduty
                             failing_record [])) = [i]"
    "PagerdutyIncident.Description i
       = Subject (Sns failing_record) @ ''-'' @ NewStateReason sample_alarm"
    "PagerdutyIncident.IncidentKey i
       = ''incident'' @ concat (map CloudwatchAlarmTriggerDimension.Value
                                  (Dimensions (Trigger sample_alarm)))"
    "PagerdutyIncidentDetails.Fields (PagerdutyIncident.Details i)
       = map_of (rev (map (\<lambda>d. (Name d, CloudwatchAlarmTriggerDimension.Value d))
                          (Dimensions (Trigger sample_alarm))))"
    by auto
  have "i = \<lparr> PagerdutyIncident.Description = ''ALARM: cpu-high in US East-Threshold Crossed'',
              PagerdutyIncident.IncidentKey = ''incidentus-east-1bprimary'',
              PagerdutyIncident.Details = \<lparr> PagerdutyIncidentDetails.Fields =
                [''az'' \<mapsto> ''us-east-1b'', ''db'' \<mapsto> ''primary''] \<rparr> \<rparr>"
    using i(2-4)
    by (intro PagerdutyIncident.equality PagerdutyIncidentDetails.equality)
       (simp_all add: failing_record_def sns_record_def sample_alarm_def alarm_of_def)
  with i(1) have first: "pagerduty_calls (snd (processSNSRecord test_runtime sample_slack
        sample_pagerduty failing_record []))
      = [ \<lparr> PagerdutyIncident.Description = ''ALARM: cpu-high in US East-Threshold Crossed'',
            PagerdutyIncident.IncidentKey = ''incidentus-east-1bprimary'',
            PagerdutyIncident.Details = \<lparr> PagerdutyIncidentDetails.Fields =
              [''az'' \<mapsto> ''us-east-1b'', ''db'' \<mapsto> ''primary''] \<rparr> \<rparr> ]"
    by simp
  from failing_alarm_incident [of no_dimensions_record test_runtime "alarm_of []"
      sample_slack "[]" sample_pagerduty] a b c test_sendMessage_Ok
  have second: "map PagerdutyIncident.IncidentKey
        (pagerduty_calls (snd (processSNSRecord test_runtime sample_slack sample_pagerduty
                                 no_dimensions_record []))) = [''incident'']"
    by auto
  from failing_alarm_incident [of recovered_record test_runtime sample_alarm sample_slack "[]"
      sample_pagerduty] a
  have third: "pagerduty_calls (snd (processSNSRecord test_runtime sample_slack
        sample_pagerduty recovered_record [])) = []"
    by simp
  show ?thesis
    using a b c test_sendMessage_Ok first second third by simp
qed

text \<open>
  Without the two provisos the statement fails. When the chat webhook answers with a
  redirect loop, \<^verbatim>\<open>sendMessage\<close> returns an error, \<^verbatim>\<open>processSNSRecord\<close> returns it and
  the paging sink is never called. When two dimensions share the name \<^verbatim>\<open>az\<close>, the detail
  map keeps the second value only, so the first dimension's name is not mapped to its value.
\<close>

theorem failing_alarm_incident_counterexample:
  "strings_Contains (Subject (Sns failing_record)) ''ALARM:''
   \<and> json_Unmarshal_CloudwatchAlarm redirect_loop_runtime (Message (Sns failing_record))
       = Inr sample_alarm
   \<and> processSNSRecord redirect_loop_runtime sample_slack sample_pagerduty failing_record []
       = (Err ''Failed to send Slack message - got error: stopped after 10 redirects'',
          [ EvSendMessage (alarm_message_spec failing_record sample_alarm),
            EvLog ''Sending Slack message...'',
            EvHttpPost (webhook sample_slack) ''application/json'' ''{}'' ])
   \<and> pagerduty_calls (snd (processSNSRecord redirect_loop_runtime sample_slack
                              sample_pagerduty failing_record [])) = []
   \<and> strings_Contains (Subject (Sns twice_az_record)) ''ALARM:''
   \<and> json_Unmarshal_CloudwatchAlarm test_runtime (Message (Sns twice_az_record))
       = Inr twice_az_alarm
   \<and> Dimensions (Trigger twice_az_alarm)
       = [ \<lparr> Name = ''az'', CloudwatchAlarmTriggerDimension.Value = ''us-east-1a'' \<rparr>,
           \<lparr> Name = ''az'', CloudwatchAlarmTriggerDimension.Value = ''us-east-1b'' \<rparr> ]
   \<and> pagerduty_calls (snd (processSNSRecord test_runtime sample_slack sample_pagerduty
                              twice_az_record []))
       = [ \<lparr> PagerdutyIncident.Description = ''ALARM: cpu-high in US East-Threshold Crossed'',
             PagerdutyIncident.IncidentKey = ''incidentus-east-1aus-east-1b'',
             PagerdutyIncident.Details = \<lparr> PagerdutyIncidentDetails.Fields =
               [''az'' \<mapsto> ''us-east-1b''] \<rparr> \<rparr> ]
   \<and> [''az'' \<mapsto> ''us-east-1b''] ''az'' \<noteq> Some ''us-east-1a''"
proof -
  have a: "strings_Contains (Subject (Sns failing_record)) ''ALARM:''"
    "strings_Contains (Subject (Sns twice_az_record)) ''ALARM:''"
    by (simp_all add: failing_record_def twice_az_record_def sns_record_def)
  have b: "json_Unmarshal_CloudwatchAlarm redirect_loop_runtime (Message (Sns failing_record))
             = Inr sample_alarm"
    "json_Unmarshal_CloudwatchAlarm test_runtime (Message (Sns twice_az_record))
             = Inr twice_az_alarm"
    by (simp_all add: failing_record_def twice_az_record_def sns_record_def table_simps
          redirect_loop_decodes)
  have sent: "sendMessage redirect_loop_runtime sample_slack
                (alarm_message_spec failing_record sample_alarm) []
              = (Err ''Failed to send Slack message - got error: stopped after 10 redirects'',
                 [ EvSendMessage (alarm_message_spec failing_record sample_alarm),
                   EvLog ''Sending Slack message...'',
                   EvHttpPost (webhook sample_slack) ''application/json'' ''{}'' ])"
    by (simp add: sendMessage_def redirect_loop_runtime_def test_runtime_def Let_def)
  have first: "processSNSRecord redirect_loop_runtime sample_slack sample_pagerduty
                 failing_record []
       = (Err ''Failed to send Slack message - got error: stopped after 10 redirects'',
          [ EvSendMessage (alarm_message_spec failing_record sample_alarm),
            EvLog ''Sending Slack message...'',
            EvHttpPost (webhook sample_slack) ''application/json'' ''{}'' ])"
    using a(1) by (simp add: processSNSRecord_def alarmBranch_decoded [OF b(1)] sent)
  have second: "pagerduty_calls (snd (processSNSRecord test_runtime sample_slack
                  sample_pagerduty twice_az_record []))
       = [ \<lparr> PagerdutyIncident.Description = ''ALARM: cpu-high in US East-Threshold Crossed'',
             PagerdutyIncident.IncidentKey = ''incidentus-east-1aus-east-1b'',
             PagerdutyIncident.Details = \<lparr> PagerdutyIncidentDetails.Fields =
               [''az'' \<mapsto> ''us-east-1b''] \<rparr> \<rparr> ]"
  proof -
    have "pagerduty_calls (snd (processSNSRecord test_runtime sample_slack
                  sample_pagerduty twice_az_record []))
          = [alarm_incident_spec twice_az_record twice_az_alarm]"
      using a(2)
      by (simp add: processSNSRecord_def alarmBranch_pagerduty_calls [OF b(2)]
            test_sendMessage_Ok)
    then show ?thesis
      by (simp add: alarm_incident_spec_def twice_az_alarm_def alarm_of_def
            twice_az_record_def sns_record_def)
  qed
  show ?thesis
    using a b first second by (simp add: twice_az_alarm_def alarm_of_def)
qed

section \<open>Autoscaling events\<close>

text \<open>
  Claim C2 says that \<^verbatim>\<open>processAutoscalingEvent\<close> decodes the detail sub-document and that
  the narrow fields of its chat message carry the decoded values. The code never decodes
  the detail: on both branches the descriptor keeps its zero value, so every narrow field
  is the empty string whatever the event's detail holds, for every runtime. The second
  conjunct evaluates the lifecycle example of the source, whose detail names the group
  \<^verbatim>\<open>my-asg\<close> and the instance \<^verbatim>\<open>i-1234567890abcdef0\<close>.
\<close>

theorem autoscaling_detail_never_decoded:
  "slack_calls (snd (processAutoscalingEvent rt sn pn event w)) = slack_calls w @
     [ if CloudwatchEvent.DetailType event = ''EC2 Instance-launch Lifecycle Action''
          \<or> CloudwatchEvent.DetailType event = ''EC2 Instance-terminate Lifecycle Action''
       then
         \<lparr> Attachments = [
             \<lparr> Fallback = ''Autoscaling - Lifecycle Action'',
               Color = ColorInfo,
               SlackAttachment.Fields = [
                 \<lparr> Title = ''CloudWatch Event'',
                   SlackField.Value = ''Autoscaling - Lifecycle Action'', Short = False \<rparr>,
                 \<lparr> Title = ''AutoScalingGroupName'', SlackField.Value = '''', Short = True \<rparr>,
                 \<lparr> Title = ''EC2InstanceId'', SlackField.Value = '''', Short = True \<rparr>,
                 \<lparr> Title = ''LifecycleTransition'', SlackField.Value = '''',
                   Short = True \<rparr> ] \<rparr> ] \<rparr>
       else
         \<lparr> Attachments = [
             \<lparr> Fallback = ''Autoscaling - '' @ CloudwatchEvent.DetailType event,
               Color = (if CloudwatchEvent.DetailType event = ''EC2 Instance Launch Unsuccessful''
                           \<or> CloudwatchEvent.DetailType event
                               = ''EC2 Instance Terminate Unsuccessful''
                        then ColorWarn else ColorInfo),
               SlackAttachment.Fields = [
                 \<lparr> Title = ''CloudWatch Event'',
                   SlackField.Value = ''Autoscaling - '' @ CloudwatchEvent.DetailType event,
                   Short = False \<rparr>,
                 \<lparr> Title = ''EC2InstanceId'', SlackField.Value = '''', Short = True \<rparr>,
                 \<lparr> Title = ''StatusCode'', SlackField.Value = '''', Short = True \<rparr>,
                 \<lparr> Title = ''Availability Zone'', SlackField.Value = '''', Short = True \<rparr>,
                 \<lparr> Title = ''Cause'', SlackField.Value = '''', Short = True \<rparr> ] \<rparr> ] \<rparr> ]
   \<and> slack_calls (snd (processAutoscalingEvent test_runtime sample_slack sample_pagerduty
                          lifecycle_event [])) =
     [ \<lparr> Attachments = [
         \<lparr> Fallback = ''Autoscaling - Lifecycle Action'',
           Color = ''#00BFFF'',
           SlackAttachment.Fields = [
             \<lparr> Title = ''CloudWatch Event'',
               SlackField.Value = ''Autoscaling - Lifecycle Action'', Short = False \<rparr>,
             \<lparr> Title = ''AutoScalingGroupName'', SlackField.Value = '''', Short = True \<rparr>,
             \<lparr> Title = ''EC2InstanceId'', SlackField.Value = '''', Short = True \<rparr>,
             \<lparr> Title = ''LifecycleTransition'', SlackField.Value = '''',
               Short = True \<rparr> ] \<rparr> ] \<rparr> ]"
proof -
  have general: "slack_calls (snd (processAutoscalingEvent rt' sn' pn' event' w')) = slack_calls w' @
     [ if CloudwatchEvent.DetailType event' = ''EC2 Instance-launch Lifecycle Action''
          \<or> CloudwatchEvent.DetailType event' = ''EC2 Instance-terminate Lifecycle Action''
       then
         \<lparr> Attachments = [
             \<lparr> Fallback = ''Autoscaling - Lifecycle Action'',
               Color = ColorInfo,
               SlackAttachment.Fields = [
                 \<lparr> Title = ''CloudWatch Event'',
                   SlackField.Value = ''Autoscaling - Lifecycle Action'', Short = False \<rparr>,
                 \<lparr> Title = ''AutoScalingGroupName'', SlackField.Value = '''', Short = True \<rparr>,
                 \<lparr> Title = ''EC2InstanceId'', SlackField.Value = '''', Short = True \<rparr>,
                 \<lparr> Title = ''LifecycleTransition'', SlackField.Value = '''',
                   Short = True \<rparr> ] \<rparr> ] \<rparr>
       else
         \<lparr> Attachments = [
             \<lparr> Fallback = ''Autoscaling - '' @ CloudwatchEvent.DetailType event',
               Color = (if CloudwatchEvent.DetailType event' = ''EC2 Instance Launch Unsuccessful''
                           \<or> CloudwatchEvent.DetailType event'
                               = ''EC2 Instance Terminate Unsuccessful''
                        then ColorWarn else ColorInfo),
               SlackAttachment.Fields = [
                 \<lparr> Title = ''CloudWatch Event'',
                   SlackField.Value = ''Autoscaling - '' @ CloudwatchEvent.DetailType event',
                   Short = False \<rparr>,
                 \<lparr> Title = ''EC2InstanceId'', SlackField.Value = '''', Short = True \<rparr>,
                 \<lparr> Title = ''StatusCode'', SlackField.Value = '''', Short = True \<rparr>,
                 \<lparr> Title = ''Availability Zone'', SlackField.Value = '''', Short = True \<rparr>,
                 \<lparr> Title = ''Cause'', SlackField.Value = '''', Short = True \<rparr> ] \<rparr> ] \<rparr> ]"
    for rt' sn' pn' event' w'
  proof -
    have lifecycle: "contains [''EC2 Instance-launch Lifecycle Action'',
                      ''EC2 Instance-terminate Lifecycle Action'']
                     (CloudwatchEvent.DetailType event')
          \<longleftrightarrow> CloudwatchEvent.DetailType event' = ''EC2 Instance-launch Lifecycle Action''
              \<or> CloudwatchEvent.DetailType event' = ''EC2 Instance-terminate Lifecycle Action''"
      by (simp only: contains_iff) auto
    have unsuccessful: "contains [''EC2 Instance Launch Unsuccessful'',
                      ''EC2 Instance Terminate Unsuccessful'']
                     (CloudwatchEvent.DetailType event')
          \<longleftrightarrow> CloudwatchEvent.DetailType event' = ''EC2 Instance Launch Unsuccessful''
              \<or> CloudwatchEvent.DetailType event' = ''EC2 Instance Terminate Unsuccessful''"
      by (simp only: contains_iff) auto
    show ?thesis
      unfolding processAutoscalingEvent_def lifecycle unsuccessful
      by (simp add: Let_def return_err_id sendMessage_slack_calls
            zero_DetailAutoScalingLifecycleEvent_def zero_DetailAutoScalingEC2Event_def)
  qed
  have "slack_calls (snd (processAutoscalingEvent test_runtime sample_slack sample_pagerduty
                          lifecycle_event [])) =
     [ \<lparr> Attachments = [
         \<lparr> Fallback = ''Autoscaling - Lifecycle Action'',
           Color = ''#00BFFF'',
           SlackAttachment.Fields = [
             \<lparr> Title = ''CloudWatch Event'',
               SlackField.Value = ''Autoscaling - Lifecycle Action'', Short = False \<rparr>,
             \<lparr> Title = ''AutoScalingGroupName'', SlackField.Value = '''', Short = True \<rparr>,
             \<lparr> Title = ''EC2InstanceId'', SlackField.Value = '''', Short = True \<rparr>,
             \<lparr> Title = ''LifecycleTransition'', SlackField.Value = '''',
               Short = True \<rparr> ] \<rparr> ] \<rparr> ]"
    unfolding general
    by (simp add: lifecycle_event_def cloudwatch_event_def ColorInfo_def)
  with general show ?thesis by simp
qed

section \<open>Fail-fast processing of a batch\<close>

text \<open>
  Claim C3. \<^verbatim>\<open>processSNSRecords\<close> processes the records in list order, each from the
  history its predecessor left, and it returns the first per-record error (under the
  prefix \<^verbatim>\<open>could not process SNS record:\<close>) with the history at that point, whatever
  records follow: none of them is attempted. In a batch of three records where the first
  is processed without error and the embedded message of the second, an alarm by its
  subject, fails to decode, the outcome is that decode error and exactly one chat-sink
  call has been made, for the first record.
\<close>

theorem processSNSRecords_fail_fast:
  "(processSNSRecords_loop rt sn pn before w = (Ok, w1)
      \<longrightarrow> processSNSRecords_loop rt sn pn (before @ later) w
          = processSNSRecords_loop rt sn pn later w1)
   \<and> (processSNSRecords_loop rt sn pn before w = (Ok, w1)
        \<and> processSNSRecord rt sn pn failing w1 = (Err e, w2)
      \<longrightarrow> processSNSRecords_loop rt sn pn (before @ failing # later) w
          = (Err (''could not process SNS record: '' @ e), w2))
   \<and> (json_Unmarshal_SNSRecordList rt raw = Inr recordList
        \<and> SNSRecordList.Records recordList = [r1, r2, r3]
        \<and> processSNSRecord rt sn pn r1 w = (Ok, w1)
        \<and> (strings_Contains (Subject (Sns r2)) ''ALARM:''
             \<or> strings_Contains (Subject (Sns r2)) ''OK:'')
        \<and> json_Unmarshal_CloudwatchAlarm rt (Message (Sns r2)) = Inl e
      \<longrightarrow> processSNSRecords rt sn pn raw w
            = (Err (''could not process SNS record: ''
                    @ ''could not unmarshal Cloudwatch Alarm payload: '' @ e), w1)
          \<and> (\<exists>m. slack_calls (snd (processSNSRecords rt sn pn raw w)) = slack_calls w @ [m]))"
proof -
  have in_order: "processSNSRecords_loop rt sn pn before w = (Ok, w1)
      \<longrightarrow> processSNSRecords_loop rt sn pn (before @ later) w
          = processSNSRecords_loop rt sn pn later w1"
    by (simp add: processSNSRecords_loop_append)
  have first_error: "processSNSRecords_loop rt sn pn before w = (Ok, w1)
        \<and> processSNSRecord rt sn pn failing w1 = (Err e, w2)
      \<longrightarrow> processSNSRecords_loop rt sn pn (before @ failing # later) w
          = (Err (''could not process SNS record: '' @ e), w2)"
    by (simp add: processSNSRecords_loop_append)
  have three: "json_Unmarshal_SNSRecordList rt raw = Inr recordList
        \<and> SNSRecordList.Records recordList = [r1, r2, r3]
        \<and> processSNSRecord rt sn pn r1 w = (Ok, w1)
        \<and> (strings_Contains (Subject (Sns r2)) ''ALARM:''
             \<or> strings_Contains (Subject (Sns r2)) ''OK:'')
        \<and> json_Unmarshal_CloudwatchAlarm rt (Message (Sns r2)) = Inl e
      \<longrightarrow> processSNSRecords rt sn pn raw w
            = (Err (''could not process SNS record: ''
                    @ ''could not unmarshal Cloudwatch Alarm payload: '' @ e), w1)
          \<and> (\<exists>m. slack_calls (snd (processSNSRecords rt sn pn raw w)) = slack_calls w @ [m])"
  proof (rule impI)
    assume h: "json_Unmarshal_SNSRecordList rt raw = Inr recordList
        \<and> SNSRecordList.Records recordList = [r1, r2, r3]
        \<and> processSNSRecord rt sn pn r1 w = (Ok, w1)
        \<and> (strings_Contains (Subject (Sns r2)) ''ALARM:''
             \<or> strings_Contains (Subject (Sns r2)) ''OK:'')
        \<and> json_Unmarshal_CloudwatchAlarm rt (Message (Sns r2)) = Inl e"
    then have second: "processSNSRecord rt sn pn r2 w1
        = (Err (''could not unmarshal Cloudwatch Alarm payload: '' @ e), w1)"
      by (auto simp add: processSNSRecord_def alarmBranch_undecoded)
    with h have outcome: "processSNSRecords rt sn pn raw w
              = (Err (''could not process SNS record: ''
                      @ ''could not unmarshal Cloudwatch Alarm payload: '' @ e), w1)"
      by (simp add: processSNSRecords_def)
    from h obtain m where "slack_calls w1 = slack_calls w @ [m]"
      using processSNSRecord_Ok_slack_calls by blast
    with outcome show "processSNSRecords rt sn pn raw w
              = (Err (''could not process SNS record: ''
                      @ ''could not unmarshal Cloudwatch Alarm payload: '' @ e), w1)
            \<and> (\<exists>m. slack_calls (snd (processSNSRecords rt sn pn raw w)) = slack_calls w @ [m])"
      by simp
  qed
  from in_order first_error three show ?thesis
    by (intro conjI)
qed
theorem processSNSRecords_fail_fast_witness:
  "fst (processSNSRecord test_runtime sample_slack sample_pagerduty hello_record []) = Ok
   \<and> json_Unmarshal_SNSRecordList test_runtime batch_raw
       = Inr \<lparr> SNSRecordList.Records = [hello_record, garbled_record, rds_record] \<rparr>
   \<and> strings_Contains (Subject (Sns garbled_record)) ''ALARM:''
   \<and> json_Unmarshal_CloudwatchAlarm test_runtime (Message (Sns garbled_record))
       = Inl ''invalid character looking for beginning of value''
   \<and> processSNSRecords_loop test_runtime sample_slack sample_pagerduty
        ([hello_record] @ garbled_record # [rds_record]) []
       = (Err (''could not process SNS record: ''
               @ ''could not unmarshal Cloudwatch Alarm payload: ''
               @ ''invalid character looking for beginning of value''),
          snd (processSNSRecord test_runtime sample_slack sample_pagerduty hello_record []))
   \<and> processSNSRecords_loop test_runtime sample_slack sample_pagerduty
        ([hello_record] @ [garbled_record, rds_record]) []
       = processSNSRecords_loop test_runtime sample_slack sample_pagerduty
           [garbled_record, rds_record]
           (snd (processSNSRecord test_runtime sample_slack sample_pagerduty hello_record []))
   \<and> processSNSRecords test_runtime sample_slack sample_pagerduty batch_raw []
       = (Err (''could not process SNS record: ''
               @ ''could not unmarshal Cloudwatch Alarm payload: ''
               @ ''invalid character looking for beginning of value''),
          snd (processSNSRecord test_runtime sample_slack sample_pagerduty hello_record []))
   \<and> slack_calls (snd (processSNSRecords test_runtime sample_slack sample_pagerduty
                          batch_raw []))
       = [ \<lparr> Attachments = [
             \<lparr> Fallback = ''Hello from SNS!'',
               Color = ''#00BFFF'',
               SlackAttachment.Fields = [
                 \<lparr> Title = ''TestInvoke'', SlackField.Value = ''Hello from SNS!'',
                   Short = False \<rparr> ] \<rparr> ] \<rparr> ]"
proof -
  obtain res w1 where
    run: "processSNSRecord test_runtime sample_slack sample_pagerduty hello_record [] = (res, w1)"
    by (cases "processSNSRecord test_runtime sample_slack sample_pagerduty hello_record []")
       auto
  let ?e = "''invalid character looking for beginning of value''"
  have plain: "\<not> strings_Contains (Subject (Sns hello_record)) ''ALARM:''"
    "\<not> strings_Contains (Subject (Sns hello_record)) ''OK:''"
    by (simp_all add: hello_record_def sns_record_def)
  have sent: "processSNSRecord test_runtime sample_slack sample_pagerduty hello_record [] =
     sendMessage test_runtime sample_slack
       \<lparr> Attachments = [
           \<lparr> Fallback = Message (Sns hello_record),
             Color = ColorInfo,
             SlackAttachment.Fields = [
               \<lparr> Title = Subject (Sns hello_record),
                 SlackField.Value = Message (Sns hello_record),
                 Short = False \<rparr> ] \<rparr> ] \<rparr> []"
    by (rule processSNSRecord_not_alarm [OF plain])
  have "fst (processSNSRecord test_runtime sample_slack sample_pagerduty hello_record [])
            = Ok"
    by (simp add: sent test_sendMessage_Ok)
  then have r1: "processSNSRecord test_runtime sample_slack sample_pagerduty hello_record []
                 = (Ok, w1)"
    using run by simp
  then have before: "processSNSRecords_loop test_runtime sample_slack sample_pagerduty
                       [hello_record] [] = (Ok, w1)"
    by simp
  have "slack_calls
          (snd (processSNSRecord test_runtime sample_slack sample_pagerduty hello_record []))
       = [ \<lparr> Attachments = [
             \<lparr> Fallback = ''Hello from SNS!'',
               Color = ''#00BFFF'',
               SlackAttachment.Fields = [
                 \<lparr> Title = ''TestInvoke'', SlackField.Value = ''Hello from SNS!'',
                   Short = False \<rparr> ] \<rparr> ] \<rparr> ]"
    unfolding sent
    by (simp add: sendMessage_slack_calls hello_record_def sns_record_def ColorInfo_def)
  then have w1: "slack_calls w1
       = [ \<lparr> Attachments = [
             \<lparr> Fallback = ''Hello from SNS!'',
               Color = ''#00BFFF'',
               SlackAttachment.Fields = [
                 \<lparr> Title = ''TestInvoke'', SlackField.Value = ''Hello from SNS!'',
                   Short = False \<rparr> ] \<rparr> ] \<rparr> ]"
    by (simp add: r1)
  have listed: "json_Unmarshal_SNSRecordList test_runtime batch_raw
       = Inr \<lparr> SNSRecordList.Records = [hello_record, garbled_record, rds_record] \<rparr>"
    by (simp add: test_runtime_def decode_table_def)
  have alarm: "strings_Contains (Subject (Sns garbled_record)) ''ALARM:''"
    by (simp add: garbled_record_def sns_record_def)
  have garbled: "json_Unmarshal_CloudwatchAlarm test_runtime (Message (Sns garbled_record))
                 = Inl ?e"
    by (simp add: garbled_record_def sns_record_def table_simps)
  have r2: "processSNSRecord test_runtime sample_slack sample_pagerduty garbled_record w1
            = (Err (''could not unmarshal Cloudwatch Alarm payload: '' @ ?e), w1)"
    using alarm by (simp add: processSNSRecord_def alarmBranch_undecoded [OF garbled])
  note inst = processSNSRecords_fail_fast [of test_runtime sample_slack sample_pagerduty
      "[hello_record]" "[]" w1 _ garbled_record _ w1 batch_raw
      "\<lparr> SNSRecordList.Records = [hello_record, garbled_record, rds_record] \<rparr>"
      hello_record garbled_record rds_record]
  have in_order: "processSNSRecords_loop test_runtime sample_slack sample_pagerduty
        ([hello_record] @ [garbled_record, rds_record]) []
       = processSNSRecords_loop test_runtime sample_slack sample_pagerduty
           [garbled_record, rds_record] w1"
    using inst [of "[garbled_record, rds_record]"
                  "''could not unmarshal Cloudwatch Alarm payload: '' @ ?e"] before
    by blast
  have first_error: "processSNSRecords_loop test_runtime sample_slack sample_pagerduty
        ([hello_record] @ garbled_record # [rds_record]) []
       = (Err (''could not process SNS record: ''
               @ ''could not unmarshal Cloudwatch Alarm payload: '' @ ?e), w1)"
    using inst [of "[rds_record]" "''could not unmarshal Cloudwatch Alarm payload: '' @ ?e"]
      before r2
    by blast
  have three: "processSNSRecords test_runtime sample_slack sample_pagerduty batch_raw []
       = (Err (''could not process SNS record: ''
               @ ''could not unmarshal Cloudwatch Alarm payload: '' @ ?e), w1)"
    using inst [of "[rds_record]" ?e] listed r1 alarm garbled
    by simp
  show ?thesis
    using r1 listed alarm garbled in_order first_error three w1 by simp
qed

section \<open>Top-level routing\<close>

text \<open>
  Claim C4. For every raw payload whose envelope decodes, \<^verbatim>\<open>processMessage\<close> takes one of
  three mutually exclusive routes. With a non-empty record list whose first record has
  \<^verbatim>\<open>EventSource\<close> equal to the string \<^verbatim>\<open>aws:sns\<close>, it does what \<^verbatim>\<open>processSNSRecords\<close> does
  on the raw payload. With an absent or empty record list, it does what
  \<^verbatim>\<open>processCloudwatchEvent\<close> does on the raw payload. With a non-empty record list whose
  first record has any other \<^verbatim>\<open>EventSource\<close>, or none, it logs one line and returns
  success: no classifier runs and no sink is called.
\<close>

theorem processMessage_routes:
  assumes "json_Unmarshal_GenericEvent rt raw = Inr data"
  shows "(GenericEvent.Records data = Some (first # others)
            \<and> first ''EventSource'' = Some (VString ''aws:sns'')
          \<longrightarrow> processMessage rt sn pn raw w = processSNSRecords rt sn pn raw w)
       \<and> (GenericEvent.Records data = None \<or> GenericEvent.Records data = Some []
          \<longrightarrow> processMessage rt sn pn raw w = processCloudwatchEvent rt sn pn raw w)
       \<and> (GenericEvent.Records data = Some (first # others)
            \<and> first ''EventSource'' \<noteq> Some (VString ''aws:sns'')
          \<longrightarrow> processMessage rt sn pn raw w = (Ok, w @ [EvLog ''No SNS records to process''])
              \<and> slack_calls (snd (processMessage rt sn pn raw w)) = slack_calls w
              \<and> pagerduty_calls (snd (processMessage rt sn pn raw w)) = pagerduty_calls w)"
  using assms
  by (auto simp add: processMessage_def return_err_id slack_calls_append
        pagerduty_calls_append)

theorem processMessage_routes_witness:
  "json_Unmarshal_GenericEvent test_runtime batch_raw
     = Inr (generic_batch
              [ generic_record ''TestInvoke'' ''Hello from SNS!'',
                generic_record ''ALARM: disk-full in US East'' ''Hello from SNS!'',
                generic_record ''RDS Notification Message'' ''Finished DB Instance backup'' ])
   \<and> generic_record ''TestInvoke'' ''Hello from SNS!'' ''EventSource''
       = Some (VString ''aws:sns'')
   \<and> processMessage test_runtime sample_slack sample_pagerduty batch_raw []
       = processSNSRecords test_runtime sample_slack sample_pagerduty batch_raw []
   \<and> json_Unmarshal_GenericEvent test_runtime ec2_pending_raw
       = Inr (generic_event ''aws.ec2'' ''EC2 Instance State-change Notification'')
   \<and> GenericEvent.Records (generic_event ''aws.ec2''
        ''EC2 Instance State-change Notification'') = None
   \<and> processMessage test_runtime sample_slack sample_pagerduty ec2_pending_raw []
       = processCloudwatchEvent test_runtime sample_slack sample_pagerduty ec2_pending_raw []
   \<and> json_Unmarshal_GenericEvent test_runtime no_records_raw = Inr (generic_batch [])
   \<and> processMessage test_runtime sample_slack sample_pagerduty no_records_raw []
       = processCloudwatchEvent test_runtime sample_slack sample_pagerduty no_records_raw []
   \<and> json_Unmarshal_GenericEvent test_runtime s3_raw
       = Inr (generic_batch [ [''eventSource'' \<mapsto> VString ''aws:s3'',
                               ''eventName'' \<mapsto> VString ''ObjectCreated:Put''] ])
   \<and> processMessage test_runtime sample_slack sample_pagerduty s3_raw []
       = (Ok, [EvLog ''No SNS records to process''])"
proof -
  have a: "json_Unmarshal_GenericEvent test_runtime batch_raw
     = Inr (generic_batch
              [ generic_record ''TestInvoke'' ''Hello from SNS!'',
                generic_record ''ALARM: disk-full in US East'' ''Hello from SNS!'',
                generic_record ''RDS Notification Message'' ''Finished DB Instance backup'' ])"
    by (simp add: test_runtime_def decode_table_def)
  have b: "json_Unmarshal_GenericEvent test_runtime ec2_pending_raw
       = Inr (generic_event ''aws.ec2'' ''EC2 Instance State-change Notification'')"
    by (simp add: test_runtime_def decode_table_def batch_raw_def s3_raw_def
          no_records_raw_def ec2_pending_raw_def)
  have c: "json_Unmarshal_GenericEvent test_runtime no_records_raw = Inr (generic_batch [])"
    by (simp add: test_runtime_def decode_table_def batch_raw_def s3_raw_def
          no_records_raw_def)
  have d: "json_Unmarshal_GenericEvent test_runtime s3_raw
       = Inr (generic_batch [ [''eventSource'' \<mapsto> VString ''aws:s3'',
                               ''eventName'' \<mapsto> VString ''ObjectCreated:Put''] ])"
    by (simp add: test_runtime_def decode_table_def batch_raw_def s3_raw_def)
  have e: "generic_record ''TestInvoke'' ''Hello from SNS!'' ''EventSource''
           = Some (VString ''aws:sns'')"
    by (simp add: generic_record_def)
  show ?thesis
    using a b c d e
      processMessage_routes [OF a, of "generic_record ''TestInvoke'' ''Hello from SNS!''"
        "[ generic_record ''ALARM: disk-full in US East'' ''Hello from SNS!'',
           generic_record ''RDS Notification Message'' ''Finished DB Instance backup'' ]"
        sample_slack sample_pagerduty "[]"]
      processMessage_routes [OF b, of "Map.empty" "[]" sample_slack sample_pagerduty "[]"]
      processMessage_routes [OF c, of "Map.empty" "[]" sample_slack sample_pagerduty "[]"]
      processMessage_routes [OF d, of "[''eventSource'' \<mapsto> VString ''aws:s3'',
                               ''eventName'' \<mapsto> VString ''ObjectCreated:Put'']" "[]"
        sample_slack sample_pagerduty "[]"]
    by (simp add: generic_batch_def generic_event_def)
qed

section \<open>The chat message of an alarm record\<close>

text \<open>
  Claim C5. For every record whose subject contains \<^verbatim>\<open>ALARM:\<close> or \<^verbatim>\<open>OK:\<close> and whose
  embedded message decodes, \<^verbatim>\<open>processSNSRecord\<close> hands the chat sink exactly one message,
  with one attachment whose fields are, in this order: a wide field pairing the subject
  with the state-change reason, one narrow field per trigger dimension in the order of the
  dimension list pairing its name with its value, a narrow \<^verbatim>\<open>Namespace\<close> field and a
  narrow \<^verbatim>\<open>MetricName\<close> field. The colour is error-red when the subject contains
  \<^verbatim>\<open>ALARM:\<close> and success-green otherwise.
\<close>

theorem alarm_chat_message_fields:
  assumes "strings_Contains (Subject (Sns record)) ''ALARM:''
           \<or> strings_Contains (Subject (Sns record)) ''OK:''"
    and "json_Unmarshal_CloudwatchAlarm rt (Message (Sns record)) = Inr alarm"
  shows "slack_calls (snd (processSNSRecord rt sn pn record w)) = slack_calls w @
    [ \<lparr> Attachments = [
        \<lparr> Fallback = NewStateReason alarm,
          Color = (if strings_Contains (Subject (Sns record)) ''ALARM:''
                   then ColorError else ColorSuccess),
          SlackAttachment.Fields =
            \<lparr> Title = Subject (Sns record), SlackField.Value = NewStateReason alarm,
              Short = False \<rparr>
            # map (\<lambda>d. \<lparr> Title = Name d,
                          SlackField.Value = CloudwatchAlarmTriggerDimension.Value d,
                          Short = True \<rparr>) (Dimensions (Trigger alarm))
            @ [ \<lparr> Title = ''Namespace'', SlackField.Value = Namespace (Trigger alarm),
                  Short = True \<rparr>,
                \<lparr> Title = ''MetricName'', SlackField.Value = MetricName (Trigger alarm),
                  Short = True \<rparr> ] \<rparr> ] \<rparr> ]"
proof -
  have "processSNSRecord rt sn pn record w = alarmBranch rt sn pn record w"
    using assms(1) by (simp add: processSNSRecord_def)
  then show ?thesis
    using alarmBranch_slack_calls [OF assms(2), of sn pn w]
    by (simp add: alarm_message_spec_def alarm_fields_spec_def)
qed

theorem alarm_chat_message_fields_witness:
  "strings_Contains (Subject (Sns failing_record)) ''ALARM:''
   \<and> json_Unmarshal_CloudwatchAlarm test_runtime (Message (Sns failing_record)) = Inr sample_alarm
   \<and> slack_calls (snd (processSNSRecord test_runtime sample_slack sample_pagerduty
                          failing_record [])) =
    [ \<lparr> Attachments = [
        \<lparr> Fallback = ''Threshold Crossed'',
          Color = ''#DC143C'',
          SlackAttachment.Fields =
            [ \<lparr> Title = ''ALARM: cpu-high in US East'',
                SlackField.Value = ''Threshold Crossed'', Short = False \<rparr>,
              \<lparr> Title = ''az'', SlackField.Value = ''us-east-1b'', Short = True \<rparr>,
              \<lparr> Title = ''db'', SlackField.Value = ''primary'', Short = True \<rparr>,
              \<lparr> Title = ''Namespace'', SlackField.Value = ''AWS/RDS'', Short = True \<rparr>,
              \<lparr> Title = ''MetricName'', SlackField.Value = ''CPUUtilization'',
                Short = True \<rparr> ] \<rparr> ] \<rparr> ]"
proof -
  have subject: "strings_Contains (Subject (Sns failing_record)) ''ALARM:''"
    by (simp add: failing_record_def sns_record_def)
  have decoded: "json_Unmarshal_CloudwatchAlarm test_runtime (Message (Sns failing_record))
                 = Inr sample_alarm"
    by (simp add: failing_record_def sns_record_def table_simps)
  show ?thesis
    using subject decoded
      alarm_chat_message_fields [of failing_record test_runtime sample_alarm
        sample_slack sample_pagerduty "[]"]
    by (simp add: sample_alarm_def alarm_of_def ColorError_def failing_record_def sns_record_def)
qed

section \<open>EC2 state changes\<close>

text \<open>
  Claim C6. For every EC2 instance state-change event whose detail decodes, the chat
  message is warn-yellow exactly when the decoded state is one of \<^verbatim>\<open>shutting-down\<close>,
  \<^verbatim>\<open>terminated\<close>, \<^verbatim>\<open>stopping\<close>, \<^verbatim>\<open>stopped\<close>, and info-blue for every other state; the
  two colours differ.
\<close>

theorem ec2_state_change_color:
  assumes "json_Unmarshal_DetailEC2StateChange rt (Detail event) = Inr eventDetail"
  shows "slack_calls (snd (processEC2StateChangeEvent rt sn pn event w)) = slack_calls w @
    [ \<lparr> Attachments = [
        \<lparr> Fallback = ''EC2 Instance State-change'',
          Color = (if State eventDetail
                        \<in> {''shutting-down'', ''terminated'', ''stopping'', ''stopped''}
                   then ColorWarn else ColorInfo),
          SlackAttachment.Fields = [
            \<lparr> Title = ''CloudWatch Event'', SlackField.Value = ''EC2 Instance State-change'',
              Short = False \<rparr>,
            \<lparr> Title = ''instance-id'', SlackField.Value = InstanceId eventDetail,
              Short = True \<rparr>,
            \<lparr> Title = ''state'', SlackField.Value = State eventDetail,
              Short = True \<rparr> ] \<rparr> ] \<rparr> ]
    \<and> ColorWarn \<noteq> ColorInfo"
proof -
  have "contains [''shutting-down'', ''terminated'', ''stopping'', ''stopped''] (State eventDetail)
        \<longleftrightarrow> State eventDetail \<in> {''shutting-down'', ''terminated'', ''stopping'', ''stopped''}"
    by (simp only: contains_iff) simp
  then show ?thesis
    using assms
    by (simp add: processEC2StateChangeEvent_def Let_def return_err_id sendMessage_slack_calls
          ColorWarn_def ColorInfo_def del: contains.simps)
qed

theorem ec2_state_change_color_witness:
  "json_Unmarshal_DetailEC2StateChange test_runtime
       (Detail (cloudwatch_event ''aws.ec2'' ''EC2 Instance State-change Notification''
                  ec2_terminated_detail))
     = Inr \<lparr> InstanceId = ''i-abcd1111'', State = ''terminated'' \<rparr>
   \<and> map (\<lambda>m. map Color (Attachments m))
        (slack_calls (snd (processEC2StateChangeEvent test_runtime sample_slack sample_pagerduty
           (cloudwatch_event ''aws.ec2'' ''EC2 Instance State-change Notification''
              ec2_terminated_detail) [])))
     = [[''#FFD700'']]
   \<and> json_Unmarshal_DetailEC2StateChange test_runtime
       (Detail (cloudwatch_event ''aws.ec2'' ''EC2 Instance State-change Notification''
                  ec2_pending_detail))
     = Inr \<lparr> InstanceId = ''i-abcd1111'', State = ''pending'' \<rparr>
   \<and> map (\<lambda>m. map Color (Attachments m))
        (slack_calls (snd (processEC2StateChangeEvent test_runtime sample_slack sample_pagerduty
           (cloudwatch_event ''aws.ec2'' ''EC2 Instance State-change Notification''
              ec2_pending_detail) [])))
     = [[''#00BFFF'']]"
proof -
  let ?terminated = "cloudwatch_event ''aws.ec2'' ''EC2 Instance State-change Notification''
              ec2_terminated_detail"
  let ?pending = "cloudwatch_event ''aws.ec2'' ''EC2 Instance State-change Notification''
              ec2_pending_detail"
  have a: "json_Unmarshal_DetailEC2StateChange test_runtime (Detail ?terminated)
           = Inr \<lparr> InstanceId = ''i-abcd1111'', State = ''terminated'' \<rparr>"
    by (simp add: cloudwatch_event_def test_runtime_def decode_table_def
          ec2_terminated_detail_def ec2_pending_detail_def)
  have b: "json_Unmarshal_DetailEC2StateChange test_runtime (Detail ?pending)
           = Inr \<lparr> InstanceId = ''i-abcd1111'', State = ''pending'' \<rparr>"
    by (simp add: cloudwatch_event_def test_runtime_def decode_table_def
          ec2_terminated_detail_def ec2_pending_detail_def)
  show ?thesis
    using a b
      ec2_state_change_color [OF a, of sample_slack sample_pagerduty "[]"]
      ec2_state_change_color [OF b, of sample_slack sample_pagerduty "[]"]
    by (simp add: ColorWarn_def ColorInfo_def)
qed

section \<open>The catch-all branch and the RDS branch\<close>

text \<open>
  Claim C7. For every record whose subject matches neither alarm pattern, what the
  catch-all branch of \<^verbatim>\<open>processSNSRecord\<close> does is what the RDS-notification branch does
  for the same record: one call of the chat sink with a single wide field pairing the
  subject with the raw message text, the raw message text as fallback, colour info-blue,
  and the sink's outcome as the outcome. Whichever of the two the subject selects,
  \<^verbatim>\<open>processSNSRecord\<close> behaves as the RDS branch.
\<close>

theorem plain_branches_equivalent:
  "plainMessageBranch rt sn record w = rdsNotificationBranch rt sn record w
   \<and> rdsNotificationBranch rt sn record w =
       sendMessage rt sn
         \<lparr> Attachments = [
             \<lparr> Fallback = Message (Sns record),
               Color = ColorInfo,
               SlackAttachment.Fields = [
                 \<lparr> Title = Subject (Sns record), SlackField.Value = Message (Sns record),
                   Short = False \<rparr> ] \<rparr> ] \<rparr> w
   \<and> (\<not> strings_Contains (Subject (Sns record)) ''ALARM:''
        \<and> \<not> strings_Contains (Subject (Sns record)) ''OK:''
      \<longrightarrow> processSNSRecord rt sn pn record w = rdsNotificationBranch rt sn record w)"
  by (simp add: rdsNotificationBranch_sendMessage plainMessageBranch_sendMessage
        processSNSRecord_not_alarm)

theorem plain_branches_equivalent_witness:
  "\<not> strings_Contains (Subject (Sns hello_record)) ''ALARM:''
   \<and> \<not> strings_Contains (Subject (Sns hello_record)) ''OK:''
   \<and> \<not> strings_Contains (Subject (Sns hello_record)) ''RDS Notification Message''
   \<and> processSNSRecord test_runtime sample_slack sample_pagerduty hello_record []
       = rdsNotificationBranch test_runtime sample_slack hello_record []
   \<and> slack_calls (snd (processSNSRecord test_runtime sample_slack sample_pagerduty
                          hello_record []))
       = [ \<lparr> Attachments = [
             \<lparr> Fallback = ''Hello from SNS!'',
               Color = ''#00BFFF'',
               SlackAttachment.Fields = [
                 \<lparr> Title = ''TestInvoke'', SlackField.Value = ''Hello from SNS!'',
                   Short = False \<rparr> ] \<rparr> ] \<rparr> ]"
proof -
  have a: "\<not> strings_Contains (Subject (Sns hello_record)) ''ALARM:''"
    "\<not> strings_Contains (Subject (Sns hello_record)) ''OK:''"
    "\<not> strings_Contains (Subject (Sns hello_record)) ''RDS Notification Message''"
    by (simp_all add: hello_record_def sns_record_def)
  have b: "processSNSRecord test_runtime sample_slack sample_pagerduty hello_record []
           = rdsNotificationBranch test_runtime sample_slack hello_record []"
    and c: "rdsNotificationBranch test_runtime sample_slack hello_record [] =
       sendMessage test_runtime sample_slack
         \<lparr> Attachments = [
             \<lparr> Fallback = Message (Sns hello_record),
               Color = ColorInfo,
               SlackAttachment.Fields = [
                 \<lparr> Title = Subject (Sns hello_record),
                   SlackField.Value = Message (Sns hello_record),
                   Short = False \<rparr> ] \<rparr> ] \<rparr> []"
    using a plain_branches_equivalent [of test_runtime sample_slack hello_record "[]"
        sample_pagerduty]
    by simp_all
  have "slack_calls (snd (processSNSRecord test_runtime sample_slack sample_pagerduty
                          hello_record []))
       = [ \<lparr> Attachments = [
             \<lparr> Fallback = ''Hello from SNS!'',
               Color = ''#00BFFF'',
               SlackAttachment.Fields = [
                 \<lparr> Title = ''TestInvoke'', SlackField.Value = ''Hello from SNS!'',
                   Short = False \<rparr> ] \<rparr> ] \<rparr> ]"
    unfolding b c
    by (simp add: sendMessage_slack_calls hello_record_def sns_record_def ColorInfo_def)
  with a b show ?thesis by simp
qed

section \<open>Paging is reserved for failing alarms\<close>

text \<open>
  Claim C8. Whatever the payload, the runtime and the history, \<^verbatim>\<open>processCloudwatchEvent\<close>
  and its two sub-handlers never call the paging sink: the incidents handed to it are the
  same after the call as before. In the queue-record classifier a record changes them only
  if its subject contains \<^verbatim>\<open>ALARM:\<close>.
\<close>

theorem cloudwatch_events_never_page:
  "pagerduty_calls (snd (processCloudwatchEvent rt sn pn raw w)) = pagerduty_calls w
   \<and> pagerduty_calls (snd (processEC2StateChangeEvent rt sn pn event w)) = pagerduty_calls w
   \<and> pagerduty_calls (snd (processAutoscalingEvent rt sn pn event w)) = pagerduty_calls w
   \<and> (pagerduty_calls (snd (processSNSRecord rt sn pn record w)) \<noteq> pagerduty_calls w
      \<longrightarrow> strings_Contains (Subject (Sns record)) ''ALARM:'')"
  using processSNSRecord_pages_only_failing [of rt sn pn "record" w]
  by (simp add: processCloudwatchEvent_pagerduty_calls
        processEC2StateChangeEvent_pagerduty_calls processAutoscalingEvent_pagerduty_calls)

theorem cloudwatch_events_never_page_witness:
  "pagerduty_calls (snd (processSNSRecord test_runtime sample_slack sample_pagerduty
                           failing_record [])) \<noteq> pagerduty_calls []
   \<and> strings_Contains (Subject (Sns failing_record)) ''ALARM:''
   \<and> pagerduty_calls (snd (processCloudwatchEvent test_runtime sample_slack sample_pagerduty
                              ec2_pending_raw [])) = []"
proof -
  have subject: "strings_Contains (Subject (Sns failing_record)) ''ALARM:''"
    by (simp add: failing_record_def sns_record_def)
  have decoded: "json_Unmarshal_CloudwatchAlarm test_runtime (Message (Sns failing_record))
                 = Inr sample_alarm"
    by (simp add: failing_record_def sns_record_def table_simps)
  have paged: "pagerduty_calls (snd (processSNSRecord test_runtime sample_slack
                 sample_pagerduty failing_record [])) \<noteq> pagerduty_calls []"
    using subject
    by (simp add: processSNSRecord_def alarmBranch_pagerduty_calls [OF decoded]
          test_sendMessage_Ok)
  show ?thesis
    using paged
      cloudwatch_events_never_page [of test_runtime sample_slack sample_pagerduty
        ec2_pending_raw "[]" lifecycle_event failing_record]
    by simp
qed

section \<open>A request that fails in the transport\<close>

text \<open>
  Claim C9 says that a sender whose HTTP POST fails at the transport level returns an
  error to its caller. The code does not: \<^verbatim>\<open>http.Post\<close> then gives a nil response, and
  both senders call \<^verbatim>\<open>res.Body.Close()\<close> before they test the error, so they panic with a
  nil dereference, and the panic is the outcome of the whole invocation. Evaluated here on
  a runtime without network, for any message, incident and history, and for the EC2
  state-change payload through \<^verbatim>\<open>HandleRequest\<close>.
\<close>

theorem senders_panic_on_transport_failure:
  "fst (sendMessage network_down_runtime sample_slack msg w) = Panic nil_dereference
   \<and> fst (triggerIncident network_down_runtime sample_pagerduty incident w)
       = Panic nil_dereference
   \<and> fst (HandleRequest network_down_runtime ec2_pending_raw []) = Panic nil_dereference"
proof -
  have "fst (processEC2StateChangeEvent network_down_runtime sample_slack sample_pagerduty
               (cloudwatch_event ''aws.ec2'' ''EC2 Instance State-change Notification''
                  ec2_pending_detail) w')
        = Panic nil_dereference" for w'
    by (simp add: processEC2StateChangeEvent_def cloudwatch_event_sel network_down_tables
          Let_def network_down_sendMessage)
  then have "fst (processCloudwatchEvent network_down_runtime sample_slack sample_pagerduty
                    ec2_pending_raw w') = Panic nil_dereference" for w'
    by (simp add: processCloudwatchEvent_def network_down_tables fst_wrap_err_Panic
          cloudwatch_event_sel)
  then have "fst (processMessage network_down_runtime sample_slack sample_pagerduty
                    ec2_pending_raw w') = Panic nil_dereference" for w'
    by (simp add: processMessage_def network_down_tables generic_event_def return_err_id)
  then have "fst (HandleRequest network_down_runtime ec2_pending_raw []) = Panic nil_dereference"
    by (simp add: HandleRequest_def network_down_tables Let_def sample_slack_def
          sample_pagerduty_def)
  then show ?thesis
    by (simp add: network_down_sendMessage network_down_triggerIncident)
qed

section \<open>EC2 events other than state changes\<close>

text \<open>
  Claim C10. For every infrastructure event of source \<^verbatim>\<open>aws.ec2\<close> whose detail-type is not
  \<^verbatim>\<open>EC2 Instance State-change Notification\<close>, \<^verbatim>\<open>processCloudwatchEvent\<close> returns success
  and leaves the history as it was: no sink is called, no request is issued, and the
  generic fallback is not used.
\<close>

theorem other_ec2_events_dropped:
  assumes "json_Unmarshal_CloudwatchEvent rt raw = Inr event"
    and "CloudwatchEvent.Source event = ''aws.ec2''"
    and "CloudwatchEvent.DetailType event \<noteq> ''EC2 Instance State-change Notification''"
  shows "processCloudwatchEvent rt sn pn raw w = (Ok, w)"
  using assms by (simp add: processCloudwatchEvent_def)

theorem other_ec2_events_dropped_witness:
  "json_Unmarshal_CloudwatchEvent test_runtime ec2_spot_raw
     = Inr (cloudwatch_event ''aws.ec2'' ''EC2 Spot Instance Interruption Warning''
              ec2_spot_detail)
   \<and> CloudwatchEvent.Source (cloudwatch_event ''aws.ec2''
        ''EC2 Spot Instance Interruption Warning'' ec2_spot_detail) = ''aws.ec2''
   \<and> CloudwatchEvent.DetailType (cloudwatch_event ''aws.ec2''
        ''EC2 Spot Instance Interruption Warning'' ec2_spot_detail)
       \<noteq> ''EC2 Instance State-change Notification''
   \<and> processCloudwatchEvent test_runtime sample_slack sample_pagerduty ec2_spot_raw []
       = (Ok, [])"
proof -
  let ?event = "cloudwatch_event ''aws.ec2'' ''EC2 Spot Instance Interruption Warning''
                  ec2_spot_detail"
  have a: "json_Unmarshal_CloudwatchEvent test_runtime ec2_spot_raw = Inr ?event"
    by (simp add: test_runtime_def decode_table_def ec2_spot_raw_def ec2_pending_raw_def
          no_records_raw_def)
  have b: "CloudwatchEvent.Source ?event = ''aws.ec2''"
    by (simp add: cloudwatch_event_def)
  have c: "CloudwatchEvent.DetailType ?event \<noteq> ''EC2 Instance State-change Notification''"
    by (simp add: cloudwatch_event_def)
  show ?thesis
    using a b c other_ec2_events_dropped [OF a b c, of sample_slack sample_pagerduty "[]"]
    by simp
qed

end
